theory Spec2Isabelle
  imports Complex_Main "HOL-Library.List_Lexorder" "HOL-Library.Char_ord" "HOL-Library.Log_Nat"
begin

section \<open>JavaScript numbers and values\<close>

text \<open>
  A JavaScript number is an IEEE 754 double: a finite value, \<open>NaN\<close>, \<open>+Infinity\<close> or
  \<open>-Infinity\<close>. A finite double is kept as the rational it denotes. Comparison of two
  doubles is the comparison of these rationals. Each arithmetic operation computes the exact
  result and rounds it to the nearest double, a tie going to the even significand; a result
  beyond the finite range is an infinity. The sign of zero is not represented: the server
  never divides by a zero, and a zero of either sign is falsy and compares as 0.
\<close>

datatype jsnum = Fin rat | NaN | PInf | NInf

text \<open>
  The double nearest to a rational: 53 bits of significand, the least exponent that of the
  subnormals. \<open>ilog2 a\<close> is the integer part of the binary logarithm of a positive \<open>a\<close>.
\<close>

definition pow2 :: "int \<Rightarrow> rat" where
  "pow2 e = (if 0 \<le> e then 2 ^ nat e else 1 / 2 ^ nat (- e))"

definition ilog2 :: "rat \<Rightarrow> int" where
  "ilog2 a = (if 1 \<le> a then bitlen \<lfloor>a\<rfloor> - 1 else - bitlen (\<lceil>1 / a\<rceil> - 1))"

definition round_half_even :: "rat \<Rightarrow> int" where
  "round_half_even m =
     (let n = \<lfloor>m\<rfloor>; r = m - of_int n
      in if r < 1 / 2 then n else if 1 / 2 < r then n + 1 else if even n then n else n + 1)"

definition nearest_double :: "rat \<Rightarrow> rat" where
  "nearest_double q =
     (if q = 0 then 0
      else (let a = \<bar>q\<bar>;
                e = max (ilog2 a - 52) (- 1074);
                n = round_half_even (a / pow2 e)
            in sgn q * of_int n * pow2 e))"

text \<open>The result of an operation whose exact value is \<open>q\<close>.\<close>

definition rounded :: "rat \<Rightarrow> jsnum" where
  "rounded q =
     (let r = nearest_double q
      in if 2 ^ 1024 \<le> \<bar>r\<bar> then (if 0 < r then PInf else NInf) else Fin r)"

fun num_lt :: "jsnum \<Rightarrow> jsnum \<Rightarrow> bool" where
  "num_lt (Fin a) (Fin b) = (a < b)"
| "num_lt (Fin a) PInf = True"
| "num_lt NInf (Fin b) = True"
| "num_lt NInf PInf = True"
| "num_lt _ _ = False"

definition num_le :: "jsnum \<Rightarrow> jsnum \<Rightarrow> bool" where
  "num_le x y = (num_lt x y \<or> (x = y \<and> x \<noteq> NaN))"

fun num_sgn :: "jsnum \<Rightarrow> int" where
  "num_sgn (Fin a) = (if 0 < a then 1 else if a < 0 then - 1 else 0)"
| "num_sgn PInf = 1"
| "num_sgn NInf = - 1"
| "num_sgn NaN = 0"

definition signed_inf :: "int \<Rightarrow> jsnum" where
  "signed_inf s = (if s = 0 then NaN else if 0 < s then PInf else NInf)"

fun num_mul :: "jsnum \<Rightarrow> jsnum \<Rightarrow> jsnum" where
  "num_mul (Fin a) (Fin b) = rounded (a * b)"
| "num_mul NaN y = NaN"
| "num_mul x NaN = NaN"
| "num_mul x y = signed_inf (num_sgn x * num_sgn y)"

fun num_add :: "jsnum \<Rightarrow> jsnum \<Rightarrow> jsnum" where
  "num_add (Fin a) (Fin b) = rounded (a + b)"
| "num_add NaN y = NaN"
| "num_add x NaN = NaN"
| "num_add PInf NInf = NaN"
| "num_add NInf PInf = NaN"
| "num_add PInf y = PInf"
| "num_add x PInf = PInf"
| "num_add NInf y = NInf"
| "num_add x NInf = NInf"

text \<open>Division; a zero divisor is the positive zero (the server divides by 30 and by counts).\<close>

fun num_div :: "jsnum \<Rightarrow> jsnum \<Rightarrow> jsnum" where
  "num_div (Fin a) (Fin b) = (if b = 0 then signed_inf (num_sgn (Fin a)) else rounded (a / b))"
| "num_div NaN y = NaN"
| "num_div x NaN = NaN"
| "num_div (Fin a) y = Fin 0"
| "num_div x (Fin b) = signed_inf (num_sgn x * (if b < 0 then - 1 else 1))"
| "num_div x y = NaN"

fun isFinite :: "jsnum \<Rightarrow> bool" where
  "isFinite (Fin a) = True"
| "isFinite _ = False"

text \<open>
  \<open>Number(x.toFixed(2))\<close>: \<open>toFixed\<close> rounds the magnitude of the double to two decimals,
  a tie going away from zero, and \<open>Number\<close> reads the decimal as the nearest double; from
  \<open>1e21\<close> on, and for \<open>NaN\<close> and the infinities, \<open>toFixed\<close> prints the number itself,
  which \<open>Number\<close> reads back.
\<close>

definition round2 :: "rat \<Rightarrow> rat" where
  "round2 a = sgn a * of_int \<lfloor>\<bar>a\<bar> * 100 + 1 / 2\<rfloor> / 100"

fun number_toFixed2 :: "jsnum \<Rightarrow> jsnum" where
  "number_toFixed2 (Fin a) = (if \<bar>a\<bar> < 10 ^ 21 then rounded (round2 a) else Fin a)"
| "number_toFixed2 x = x"

text \<open>
  The values that reach the arithmetic of the server. A key that a JSON body leaves out reads
  as \<open>Undefined\<close>. \<open>Member\<close> is a property inherited from \<open>Object.prototype\<close> (a built-in
  function, or the prototype itself for \<open>__proto__\<close>): what a plain object used as a table
  returns for such a key. \<open>Joined\<close> is the text that \<open>+\<close> builds when an operand is not a
  primitive number; the text itself is not represented. Text and nested arrays or objects in
  a numeric field of a request are outside this model.
\<close>

datatype jsval = Undefined | Null | Bool bool | Num jsnum | Member | Joined

fun truthy :: "jsval \<Rightarrow> bool" where
  "truthy Undefined = False"
| "truthy Null = False"
| "truthy (Bool b) = b"
| "truthy (Num n) = (n \<noteq> NaN \<and> n \<noteq> Fin 0)"
| "truthy Member = True"
| "truthy Joined = True"

definition js_or :: "jsval \<Rightarrow> jsval \<Rightarrow> jsval" where
  "js_or a b = (if truthy a then a else b)"

fun ToNumber :: "jsval \<Rightarrow> jsnum" where
  "ToNumber Undefined = NaN"
| "ToNumber Null = Fin 0"
| "ToNumber (Bool b) = (if b then Fin 1 else Fin 0)"
| "ToNumber (Num n) = n"
| "ToNumber Member = NaN"
| "ToNumber Joined = NaN"

fun is_text :: "jsval \<Rightarrow> bool" where
  "is_text Member = True"
| "is_text Joined = True"
| "is_text _ = False"

definition js_mul :: "jsval \<Rightarrow> jsval \<Rightarrow> jsval" where
  "js_mul a b = Num (num_mul (ToNumber a) (ToNumber b))"

definition js_div :: "jsval \<Rightarrow> jsval \<Rightarrow> jsval" where
  "js_div a b = Num (num_div (ToNumber a) (ToNumber b))"

text \<open>\<open>a + b\<close>: text concatenation when either operand turns into text, else addition.\<close>

definition js_add :: "jsval \<Rightarrow> jsval \<Rightarrow> jsval" where
  "js_add a b = (if is_text a \<or> is_text b then Joined else Num (num_add (ToNumber a) (ToNumber b)))"

fun typeof_number :: "jsval \<Rightarrow> bool" where
  "typeof_number (Num n) = True"
| "typeof_number _ = False"

section \<open>Emission factors and \<open>deriveEmissions\<close>\<close>

text \<open>A decimal literal of the source is the double nearest to it.\<close>

definition VEHICLE_EMISSIONS :: "(string \<times> rat) list" where
  "VEHICLE_EMISSIONS =
     [(''car-petrol'', nearest_double 0.171), (''car-diesel'', nearest_double 0.168),
      (''car-electric'', nearest_double 0.053), (''motorcycle'', nearest_double 0.103),
      (''public-transport'', nearest_double 0.041), (''bicycle'', 0)]"

definition DIET_EMISSIONS :: "(string \<times> rat) list" where
  "DIET_EMISSIONS =
     [(''meat-heavy'', nearest_double 7.19), (''meat-moderate'', nearest_double 5.63),
      (''pescatarian'', nearest_double 3.91), (''vegetarian'', nearest_double 3.81),
      (''vegan'', nearest_double 2.89)]"

definition ELECTRICITY_FACTOR :: jsval where
  "ELECTRICITY_FACTOR = Num (Fin (nearest_double 0.475))"

definition GAS_FACTOR :: jsval where
  "GAS_FACTOR = Num (Fin 2)"

text \<open>The property names every plain object inherits from \<open>Object.prototype\<close>.\<close>

definition object_prototype_keys :: "string list" where
  "object_prototype_keys =
     [''constructor'', ''__defineGetter__'', ''__defineSetter__'', ''hasOwnProperty'',
      ''__lookupGetter__'', ''__lookupSetter__'', ''isPrototypeOf'', ''propertyIsEnumerable'',
      ''toString'', ''valueOf'', ''__proto__'', ''toLocaleString'']"

text \<open>
  \<open>TABLE[key]\<close> on an object literal: an own entry, else an inherited member, else
  \<open>undefined\<close>. An absent key reads the property named \<open>undefined\<close>.
\<close>

definition table_get :: "(string \<times> rat) list \<Rightarrow> string option \<Rightarrow> jsval" where
  "table_get tbl key =
     (let k = (case key of None \<Rightarrow> ''undefined'' | Some s \<Rightarrow> s) in
      case map_of tbl k of
        Some v \<Rightarrow> Num (Fin v)
      | None \<Rightarrow> if k \<in> set object_prototype_keys then Member else Undefined)"

record payload =
  vehicle_type :: "string option"
  distance_daily :: jsval
  diet_type :: "string option"
  electricity_usage :: jsval
  gas_usage :: jsval

record emissions =
  travel :: jsval
  food :: jsval
  energy :: jsval
  total :: jsval

definition deriveEmissions :: "'a payload_scheme \<Rightarrow> emissions" where
  "deriveEmissions p =
     (let travel = js_mul (js_or (table_get VEHICLE_EMISSIONS (vehicle_type p)) (Num (Fin 0)))
                          (js_or (distance_daily p) (Num (Fin 0)));
          food = js_or (table_get DIET_EMISSIONS (diet_type p)) (Num (Fin 0));
          dailyElectricity = js_div (js_or (electricity_usage p) (Num (Fin 0))) (Num (Fin 30));
          dailyGas = js_div (js_or (gas_usage p) (Num (Fin 0))) (Num (Fin 30));
          energy = js_add (js_mul dailyElectricity ELECTRICITY_FACTOR) (js_mul dailyGas GAS_FACTOR);
          total = js_add (js_add travel food) energy
      in \<lparr>travel = travel, food = food, energy = energy, total = total\<rparr>)"

section \<open>The collections\<close>

text \<open>
  The three collections the credit engine reads and writes, each in insertion order.
  Timestamps are milliseconds. The identifier of a footprint is a number the store assigns;
  its \<open>createdAt\<close> and \<open>updatedAt\<close> stamps are left out. A \<open>Number\<close> path of a stored
  footprint holds a number or nothing (absent or \<open>null\<close>); credits and amounts are the whole
  numbers the server adds up. The text of a transaction's reason is kept as its template
  with the values put into it.
\<close>

record footprint =
  fp_id :: nat
  fp_user :: string
  fp_date :: string
  fp_vehicle_type :: "string option"
  fp_distance_daily :: "jsnum option"
  fp_diet_type :: "string option"
  fp_electricity_usage :: "jsnum option"
  fp_gas_usage :: "jsnum option"
  fp_total_score :: "jsnum option"
  fp_travel_emissions :: "jsnum option"
  fp_food_emissions :: "jsnum option"
  fp_energy_emissions :: "jsnum option"

record wallet =
  w_user :: string
  credits :: int
  lastUpdated :: nat

datatype txn_type = Earn | Bonus

datatype score_text = ToFixed1 jsnum | NotAvailable

datatype reason =
    DailyFootprint string score_text
  | ImprovedScore score_text

record credit_transaction =
  t_user :: string
  amount :: int
  t_type :: txn_type
  t_reason :: reason
  t_date :: nat

record db =
  footprints :: "footprint list"
  wallets :: "wallet list"
  transactions :: "credit_transaction list"
  next_id :: nat

definition empty_db :: db where
  "empty_db = \<lparr>footprints = [], wallets = [], transactions = [], next_id = 0\<rparr>"

text \<open>
  What a request reads from the clock: the current day as \<open>YYYY-MM-DD\<close>, the current
  instant, and the local midnights that bound the current day.
\<close>

record clock =
  today :: string
  now :: nat
  day_start :: nat
  day_end :: nat

datatype error = Error string | TypeError

section \<open>Wallets and the credit policy\<close>

text \<open>A string that is left out or empty is falsy.\<close>

definition falsy_string :: "string option \<Rightarrow> bool" where
  "falsy_string x = (case x of None \<Rightarrow> True | Some s \<Rightarrow> s = [])"

text \<open>\<open>date || new Date().toISOString().split("T")[0]\<close>: the given date, else the current day.\<close>

definition dateLabel_of :: "clock \<Rightarrow> string option \<Rightarrow> string" where
  "dateLabel_of c d = (if falsy_string d then today c else the d)"

text \<open>\<open>wallet.save()\<close>: the stored wallet of that user (unique by index) is replaced.\<close>

fun save_wallet :: "wallet \<Rightarrow> wallet list \<Rightarrow> wallet list" where
  "save_wallet w [] = []"
| "save_wallet w (x # xs) = (if w_user x = w_user w then w # xs else x # save_wallet w xs)"

definition ensureWallet :: "clock \<Rightarrow> string \<Rightarrow> db \<Rightarrow> (error + wallet) \<times> db" where
  "ensureWallet c user s =
     (if user = [] then (Inl (Error ''User email is required for wallet operations.''), s)
      else case find (\<lambda>w. w_user w = user) (wallets s) of
        Some wallet \<Rightarrow> (Inr wallet, s)
      | None \<Rightarrow>
          (let wallet = \<lparr>w_user = user, credits = 0, lastUpdated = now c\<rparr>
           in (Inr wallet, s\<lparr>wallets := wallets s @ [wallet]\<rparr>)))"

definition baseCreditsForScore :: "jsnum \<Rightarrow> int" where
  "baseCreditsForScore score =
     (if num_lt score (Fin 10) then 5 else if num_le score (Fin 20) then 3 else 1)"

text \<open>
  \<open>findOne\<close> under \<open>sort({date: -1})\<close>: a footprint of the greatest date, the first stored
  one among several.
\<close>

fun latest_first :: "footprint list \<Rightarrow> footprint option" where
  "latest_first [] = None"
| "latest_first (f # fs) =
     (case latest_first fs of
        None \<Rightarrow> Some f
      | Some g \<Rightarrow> if fp_date f < fp_date g then Some g else Some f)"

definition getPreviousScore :: "string \<Rightarrow> string \<Rightarrow> db \<Rightarrow> jsnum option" where
  "getPreviousScore user currentDate s =
     (case latest_first (filter (\<lambda>f. fp_user f = user \<and> fp_date f < currentDate) (footprints s)) of
        None \<Rightarrow> None
      | Some prev \<Rightarrow> fp_total_score prev)"

definition formatScore :: "jsnum option \<Rightarrow> score_text" where
  "formatScore v = (case v of Some n \<Rightarrow> ToFixed1 n | None \<Rightarrow> NotAvailable)"

text \<open>The bonus expression of \<open>awardCreditsForFootprint\<close>.\<close>

definition bonusCreditsFor :: "jsnum \<Rightarrow> jsnum option \<Rightarrow> int" where
  "bonusCreditsFor numericScore previousScore =
     (case previousScore of
        None \<Rightarrow> 0
      | Some p \<Rightarrow> if num_lt numericScore p then 2 else 0)"

record credit_summary =
  baseCredits :: int
  bonusCredits :: int
  totalAwarded :: int
  s_wallet :: wallet
  s_transactions :: "credit_transaction list"

text \<open>
  \<open>Number(score)\<close> is \<open>ToNumber\<close>. A user is absent (\<open>None\<close>) or a string, the empty
  string being falsy too.
\<close>

definition awardCreditsForFootprint ::
  "clock \<Rightarrow> string option \<Rightarrow> jsval \<Rightarrow> string option \<Rightarrow> db \<Rightarrow> (error + credit_summary) \<times> db" where
  "awardCreditsForFootprint c user score footprintDate s =
     (let numericScore = ToNumber score
      in if falsy_string user \<or> numericScore = NaN
         then (Inl (Error ''Valid user and score are required to award credits.''), s)
         else
          (let u = the user;
               dateLabel = dateLabel_of c footprintDate;
               baseCredits = baseCreditsForScore numericScore;
               previousScore = getPreviousScore u dateLabel s;
               bonusCredits = bonusCreditsFor numericScore previousScore;
               transactionsToPersist =
                 [\<lparr>t_user = u, amount = baseCredits, t_type = Earn,
                   t_reason = DailyFootprint dateLabel (ToFixed1 numericScore), t_date = now c\<rparr>]
                 @ (if 0 < bonusCredits
                    then [\<lparr>t_user = u, amount = bonusCredits, t_type = Bonus,
                           t_reason = ImprovedScore (formatScore previousScore), t_date = now c\<rparr>]
                    else []);
               s1 = s\<lparr>transactions := transactions s @ transactionsToPersist\<rparr>
           in case ensureWallet c u s1 of
                (Inl e, s2) \<Rightarrow> (Inl e, s2)
              | (Inr wallet, s2) \<Rightarrow>
                  (let wallet' = wallet\<lparr>credits := credits wallet + (baseCredits + bonusCredits),
                                        lastUpdated := now c\<rparr>;
                       s3 = s2\<lparr>wallets := save_wallet wallet' (wallets s2)\<rparr>
                   in (Inr \<lparr>baseCredits = baseCredits, bonusCredits = bonusCredits,
                            totalAwarded = baseCredits + bonusCredits,
                            s_wallet = wallet', s_transactions = transactionsToPersist\<rparr>, s3))))"

section \<open>Requests and responses\<close>

text \<open>
  A JSON body of the footprint routes. A \<open>String\<close> path is a string or left out; a
  \<open>Number\<close> path is any value, \<open>Undefined\<close> when left out.
\<close>

record body = payload +
  user :: "string option"
  date :: "string option"
  total_score :: jsval
  travel_emissions :: jsval
  food_emissions :: jsval
  energy_emissions :: jsval

record average =
  a_id :: string
  averageScore :: "jsnum option"
  entries :: nat

text \<open>\<open>Count n\<close> is the number \<open>n\<close>; \<open>ObjectEntries\<close> is the built-in function \<open>Object.entries\<close>.\<close>

datatype entries_value = Count nat | ObjectEntries

record employee =
  e_user :: string
  e_credits :: int
  e_lastUpdated :: "nat option"
  e_averageScore :: "jsnum option"
  e_entries :: entries_value

record summary =
  totalEmployees :: nat
  totalCredits :: int
  organizationAverage :: jsnum
  employees :: "employee list"
  ranking :: "(employee \<times> nat) list"

text \<open>\<open>Failed status message\<close> is \<open>res.status(status).json({message})\<close>; the others answer 200.\<close>

datatype response =
    Failed nat string
  | FootprintSaved "credit_summary option"
  | FootprintList "footprint list"
  | FootprintDeleted
  | FootprintUpdated footprint
  | CreditsAwarded credit_summary
  | WalletView wallet int "credit_transaction list"
  | TransactionList "credit_transaction list"
  | AdminSummary summary

section \<open>Footprint routes\<close>

text \<open>
  The store's cast of a \<open>Number\<close> path: \<open>NaN\<close> is refused, a boolean becomes 0 or 1,
  \<open>null\<close> is stored as no number.
\<close>

fun castable :: "jsval \<Rightarrow> bool" where
  "castable (Num n) = (n \<noteq> NaN)"
| "castable Member = False"
| "castable Joined = False"
| "castable _ = True"

fun castNumber :: "jsval \<Rightarrow> jsnum option" where
  "castNumber (Num n) = Some n"
| "castNumber (Bool b) = Some (if b then Fin 1 else Fin 0)"
| "castNumber _ = None"

definition number_paths :: "body \<Rightarrow> jsval list" where
  "number_paths b =
     [distance_daily b, electricity_usage b, gas_usage b, total_score b,
      travel_emissions b, food_emissions b, energy_emissions b]"

definition new_Footprint :: "nat \<Rightarrow> string \<Rightarrow> string \<Rightarrow> body \<Rightarrow> footprint" where
  "new_Footprint i u d b =
     \<lparr>fp_id = i, fp_user = u, fp_date = d,
      fp_vehicle_type = vehicle_type b,
      fp_distance_daily = castNumber (distance_daily b),
      fp_diet_type = diet_type b,
      fp_electricity_usage = castNumber (electricity_usage b),
      fp_gas_usage = castNumber (gas_usage b),
      fp_total_score = castNumber (total_score b),
      fp_travel_emissions = castNumber (travel_emissions b),
      fp_food_emissions = castNumber (food_emissions b),
      fp_energy_emissions = castNumber (energy_emissions b)\<rparr>"

text \<open>\<open>Number(x.toFixed(2))\<close>; a value that is not a number has no \<open>toFixed\<close>.\<close>

fun toFixed2 :: "jsval \<Rightarrow> error + jsval" where
  "toFixed2 (Num n) = Inr (Num (number_toFixed2 n))"
| "toFixed2 _ = Inl TypeError"

definition backfill :: "jsval \<Rightarrow> jsval \<Rightarrow> error + jsval" where
  "backfill given derived = (if typeof_number given then Inr given else toFixed2 derived)"

definition alreadySubmitted :: "string \<Rightarrow> string \<Rightarrow> db \<Rightarrow> bool" where
  "alreadySubmitted u d s = list_ex (\<lambda>f. fp_user f = u \<and> fp_date f = d) (footprints s)"

text \<open>The block that fills in the emissions the body does not give as numbers.\<close>

definition backfill_emissions :: "body \<Rightarrow> error + body" where
  "backfill_emissions b0 =
     (let e = deriveEmissions b0 in
      case backfill (travel_emissions b0) (travel e) of
        Inl x \<Rightarrow> Inl x
      | Inr tr \<Rightarrow>
      (case backfill (food_emissions b0) (food e) of
        Inl x \<Rightarrow> Inl x
      | Inr fo \<Rightarrow>
      (case backfill (energy_emissions b0) (energy e) of
        Inl x \<Rightarrow> Inl x
      | Inr en \<Rightarrow>
      (case backfill (total_score b0) (total e) of
        Inl x \<Rightarrow> Inl x
      | Inr tot \<Rightarrow>
          Inr (b0\<lparr>travel_emissions := tr, food_emissions := fo,
                  energy_emissions := en, total_score := tot\<rparr>)))))"

text \<open>\<open>entry.save()\<close>, then the award for the saved footprint.\<close>

definition save_and_award :: "clock \<Rightarrow> string \<Rightarrow> string \<Rightarrow> body \<Rightarrow> db \<Rightarrow> response \<times> db" where
  "save_and_award c u d b1 s =
     (if \<not> list_all castable (number_paths b1)
      then (Failed 500 ''Error saving footprint'', s)
      else
       (let entry = new_Footprint (next_id s) u d b1;
            s1 = s\<lparr>footprints := footprints s @ [entry], next_id := next_id s + 1\<rparr>
        in if typeof_number (total_score b1)
           then (case awardCreditsForFootprint c (Some u) (total_score b1) (Some d) s1 of
                   (Inl x, s2) \<Rightarrow> (Failed 500 ''Error saving footprint'', s2)
                 | (Inr creditSummary, s2) \<Rightarrow> (FootprintSaved (Some creditSummary), s2))
           else (FootprintSaved None, s1)))"

definition post_footprints :: "clock \<Rightarrow> body \<Rightarrow> db \<Rightarrow> response \<times> db" where
  "post_footprints c req s =
     (if falsy_string (user req) then (Failed 400 ''User email is required'', s)
      else
       (let u = the (user req);
            d = dateLabel_of c (date req);
            b0 = req\<lparr>date := Some d\<rparr>
        in if alreadySubmitted u d s
           then (Failed 409 ''You already submitted a footprint for this date.'', s)
           else
            (case backfill_emissions b0 of
               Inl x \<Rightarrow> (Failed 500 ''Error saving footprint'', s)
             | Inr b1 \<Rightarrow> save_and_award c u d b1 s)))"

definition get_footprints :: "string option \<Rightarrow> db \<Rightarrow> response \<times> db" where
  "get_footprints u s =
     (if falsy_string u then (FootprintList (footprints s), s)
      else (FootprintList (filter (\<lambda>f. fp_user f = the u) (footprints s)), s))"

text \<open>
  The \<open>:id\<close> of a route: the identifier it denotes, or text that denotes none, on which
  the cast of the store fails and the route answers 500.
\<close>

datatype route_id = ObjectId nat | NotAnObjectId

definition delete_footprints :: "route_id \<Rightarrow> db \<Rightarrow> response \<times> db" where
  "delete_footprints rid s =
     (case rid of
        NotAnObjectId \<Rightarrow> (Failed 500 ''Error deleting footprint'', s)
      | ObjectId i \<Rightarrow>
          (FootprintDeleted, s\<lparr>footprints := filter (\<lambda>f. fp_id f \<noteq> i) (footprints s)\<rparr>))"

definition isFinite_value :: "jsval \<Rightarrow> bool" where
  "isFinite_value v = (case v of Num n \<Rightarrow> isFinite n | _ \<Rightarrow> False)"

text \<open>\<open>findByIdAndUpdate\<close> sets the paths the update names and keeps the others.\<close>

definition set_number :: "jsval \<Rightarrow> jsnum option \<Rightarrow> jsnum option" where
  "set_number v old = (if v = Undefined then old else castNumber v)"

definition set_string :: "string option \<Rightarrow> string option \<Rightarrow> string option" where
  "set_string v old = (case v of None \<Rightarrow> old | Some x \<Rightarrow> Some x)"

definition apply_updates :: "body \<Rightarrow> footprint \<Rightarrow> footprint" where
  "apply_updates b f =
     f\<lparr>fp_user := (case user b of None \<Rightarrow> fp_user f | Some x \<Rightarrow> x),
       fp_date := (case date b of None \<Rightarrow> fp_date f | Some x \<Rightarrow> x),
       fp_vehicle_type := set_string (vehicle_type b) (fp_vehicle_type f),
       fp_distance_daily := set_number (distance_daily b) (fp_distance_daily f),
       fp_diet_type := set_string (diet_type b) (fp_diet_type f),
       fp_electricity_usage := set_number (electricity_usage b) (fp_electricity_usage f),
       fp_gas_usage := set_number (gas_usage b) (fp_gas_usage f),
       fp_total_score := set_number (total_score b) (fp_total_score f),
       fp_travel_emissions := set_number (travel_emissions b) (fp_travel_emissions f),
       fp_food_emissions := set_number (food_emissions b) (fp_food_emissions f),
       fp_energy_emissions := set_number (energy_emissions b) (fp_energy_emissions f)\<rparr>"

definition rederive :: "body \<Rightarrow> body" where
  "rederive req =
     (let emissions = deriveEmissions req;
          u1 = (if isFinite_value (travel emissions)
                then req\<lparr>travel_emissions := Num (number_toFixed2 (ToNumber (travel emissions)))\<rparr>
                else req);
          u2 = (if isFinite_value (food emissions)
                then u1\<lparr>food_emissions := Num (number_toFixed2 (ToNumber (food emissions)))\<rparr>
                else u1);
          u3 = (if isFinite_value (energy emissions)
                then u2\<lparr>energy_emissions := Num (number_toFixed2 (ToNumber (energy emissions)))\<rparr>
                else u2)
      in if isFinite_value (total emissions)
         then u3\<lparr>total_score := Num (number_toFixed2 (ToNumber (total emissions)))\<rparr>
         else u3)"

fun replace_by_id :: "nat \<Rightarrow> footprint \<Rightarrow> footprint list \<Rightarrow> footprint list" where
  "replace_by_id i g [] = []"
| "replace_by_id i g (f # fs) = (if fp_id f = i then g # fs else f # replace_by_id i g fs)"

definition put_footprints :: "route_id \<Rightarrow> body \<Rightarrow> db \<Rightarrow> response \<times> db" where
  "put_footprints rid req s =
     (let updates = rederive req
      in case rid of
           NotAnObjectId \<Rightarrow> (Failed 500 ''Error updating footprint'', s)
         | ObjectId i \<Rightarrow>
             if \<not> list_all castable (number_paths updates)
             then (Failed 500 ''Error updating footprint'', s)
             else case find (\<lambda>f. fp_id f = i) (footprints s) of
                    None \<Rightarrow> (Failed 404 ''Footprint not found'', s)
                  | Some f \<Rightarrow>
                      (let updated = apply_updates updates f
                       in (FootprintUpdated updated,
                           s\<lparr>footprints := replace_by_id i updated (footprints s)\<rparr>)))"

section \<open>Credit routes\<close>

definition post_credits_earn ::
  "clock \<Rightarrow> string option \<Rightarrow> jsval \<Rightarrow> string option \<Rightarrow> db \<Rightarrow> response \<times> db" where
  "post_credits_earn c u score d s =
     (if falsy_string u \<or> \<not> typeof_number score
      then (Failed 400 ''User email and numeric score are required'', s)
      else case awardCreditsForFootprint c u score d s of
             (Inl x, s') \<Rightarrow> (Failed 500 ''Failed to award credits'', s')
           | (Inr creditSummary, s') \<Rightarrow> (CreditsAwarded creditSummary, s'))"

text \<open>Most recent first; transactions of one instant stay in stored order.\<close>

definition newest_first :: "credit_transaction list \<Rightarrow> credit_transaction list" where
  "newest_first ts = sort_key (\<lambda>t. - int (t_date t)) ts"

definition get_wallet :: "clock \<Rightarrow> string \<Rightarrow> db \<Rightarrow> response \<times> db" where
  "get_wallet c u s =
     (case ensureWallet c u s of
        (Inl x, s') \<Rightarrow> (Failed 500 ''Failed to fetch wallet data'', s')
      | (Inr wallet, s') \<Rightarrow>
          (let todayTransactions =
                 filter (\<lambda>t. t_user t = u \<and> day_start c \<le> t_date t \<and> t_date t < day_end c)
                   (transactions s');
               recentTransactions =
                 take 10 (newest_first (filter (\<lambda>t. t_user t = u) (transactions s')));
               todayCredits = foldl (\<lambda>sum txn. sum + amount txn) 0 todayTransactions
           in (WalletView wallet todayCredits recentTransactions, s')))"

text \<open>The \<open>limit\<close> of the query is a whole number or left out; 0 is falsy.\<close>

definition get_transactions :: "nat option \<Rightarrow> string \<Rightarrow> db \<Rightarrow> response \<times> db" where
  "get_transactions l u s =
     (let limit = (case l of None \<Rightarrow> 25 | Some n \<Rightarrow> if n = 0 then 25 else n)
      in (TransactionList (take limit (newest_first (filter (\<lambda>t. t_user t = u) (transactions s)))), s))"

section \<open>Admin summary\<close>

text \<open>
  The requester is the \<open>x-admin-user\<close> header after \<open>trim\<close> and \<open>toLowerCase\<close>; the list is
  \<open>ADMIN_EMAILS\<close> as the server parsed it.
\<close>

definition isAdmin :: "string list \<Rightarrow> string option \<Rightarrow> bool" where
  "isAdmin adminEmails email = (\<not> falsy_string email \<and> the email \<in> set adminEmails)"

text \<open>A JavaScript \<open>Set\<close> built from a list keeps the first occurrence of each element.\<close>

definition Set_add :: "'a list \<Rightarrow> 'a \<Rightarrow> 'a list" where
  "Set_add seen x = (if x \<in> set seen then seen else seen @ [x])"

definition new_Set :: "'a list \<Rightarrow> 'a list" where
  "new_Set xs = foldl Set_add [] xs"

text \<open>
  \<open>$avg\<close> takes the mean of the numbers of the group and is \<open>null\<close> when there is none;
  \<open>$sum: 1\<close> counts the documents. The groups come in the order in which their users first
  appear among the footprints.
\<close>

definition avg_total_score :: "footprint list \<Rightarrow> jsnum option" where
  "avg_total_score docs =
     (let scores = List.map_filter fp_total_score docs
      in if scores = [] then None
         else Some (num_div (foldl num_add (Fin 0) scores) (Fin (of_nat (length scores)))))"

definition aggregate_averages :: "db \<Rightarrow> average list" where
  "aggregate_averages s =
     map (\<lambda>u. let docs = filter (\<lambda>f. fp_user f = u) (footprints s)
              in \<lparr>a_id = u, averageScore = avg_total_score docs, entries = length docs\<rparr>)
       (new_Set (map fp_user (footprints s)))"

text \<open>
  \<open>averageMap\<close> is a plain object. Reading a key gives the entry stored under it; with no
  entry, the key \<open>constructor\<close> gives the inherited \<open>Object\<close> function, whose \<open>entries\<close>
  property is \<open>Object.entries\<close>; any other key gives \<open>undefined\<close> or an inherited value
  that has neither an \<open>averageScore\<close> nor an \<open>entries\<close> property (\<open>Nothing\<close>).
  Storing under \<open>__proto__\<close> makes the entry the prototype, and reading \<open>__proto__\<close> returns
  it; the keys the object inherits from that entry hold a string, a number or \<open>null\<close>,
  which have neither property.
\<close>

datatype looked_up = Own average | ObjectConstructor | Nothing

definition empty_object :: "string \<Rightarrow> looked_up" where
  "empty_object k = (if k = ''constructor'' then ObjectConstructor else Nothing)"

definition averageMap :: "average list \<Rightarrow> string \<Rightarrow> looked_up" where
  "averageMap averages = foldl (\<lambda>map entry. map(a_id entry := Own entry)) empty_object averages"

definition number_or_null :: "jsnum option \<Rightarrow> jsnum option" where
  "number_or_null v = (case v of None \<Rightarrow> None | Some n \<Rightarrow> if truthy (Num n) then Some n else None)"

definition employee_of :: "wallet list \<Rightarrow> (string \<Rightarrow> looked_up) \<Rightarrow> string \<Rightarrow> employee" where
  "employee_of ws amap u =
     (let wallet = find (\<lambda>w. w_user w = u) ws;
          avg = amap u
      in \<lparr>e_user = u,
          e_credits = (case wallet of None \<Rightarrow> 0 | Some w \<Rightarrow> credits w),
          e_lastUpdated = (case wallet of None \<Rightarrow> None | Some w \<Rightarrow> Some (lastUpdated w)),
          e_averageScore = (case avg of Own a \<Rightarrow> number_or_null (averageScore a) | _ \<Rightarrow> None),
          e_entries = (case avg of Own a \<Rightarrow> Count (entries a)
                       | ObjectConstructor \<Rightarrow> ObjectEntries
                       | Nothing \<Rightarrow> Count 0)\<rparr>)"

definition score_or_zero :: "jsnum option \<Rightarrow> jsnum" where
  "score_or_zero v = (case number_or_null v of None \<Rightarrow> Fin 0 | Some n \<Rightarrow> n)"

definition get_admin_credits :: "string list \<Rightarrow> string option \<Rightarrow> db \<Rightarrow> response \<times> db" where
  "get_admin_credits adminEmails requester s =
     (if \<not> isAdmin adminEmails requester then (Failed 403 ''Admin access required'', s)
      else
       (let averages = aggregate_averages s;
            amap = averageMap averages;
            userSet = new_Set (map w_user (wallets s) @ map a_id averages);
            emps = map (employee_of (wallets s) amap) userSet;
            ranked = sort_key (\<lambda>e. - e_credits e) emps;
            rnk = zip ranked [1 ..< Suc (length ranked)];
            tc = foldl (\<lambda>sum emp. sum + e_credits emp) 0 emps;
            orgAvg = (if averages \<noteq> []
                      then num_div (foldl (\<lambda>sum item. num_add sum (score_or_zero (averageScore item)))
                                      (Fin 0) averages)
                             (Fin (of_nat (length averages)))
                      else Fin 0)
        in (AdminSummary \<lparr>totalEmployees = length emps, totalCredits = tc,
                          organizationAverage = orgAvg, employees = emps, ranking = rnk\<rparr>, s)))"

section \<open>The server as a transition system\<close>

text \<open>
  The routes that read or write the three collections. Sign-up, sign-in, sign-out and the
  health check touch none of them and are left out.
\<close>

datatype request =
    PostFootprints clock body
  | GetFootprints "string option"
  | DeleteFootprints route_id
  | PutFootprints route_id body
  | PostCreditsEarn clock "string option" jsval "string option"
  | GetWallet clock string
  | GetTransactions "nat option" string
  | GetAdminCredits "string option"

fun handle :: "string list \<Rightarrow> request \<Rightarrow> db \<Rightarrow> response \<times> db" where
  "handle adm (PostFootprints c b) s = post_footprints c b s"
| "handle adm (GetFootprints u) s = get_footprints u s"
| "handle adm (DeleteFootprints i) s = delete_footprints i s"
| "handle adm (PutFootprints i b) s = put_footprints i b s"
| "handle adm (PostCreditsEarn c u score d) s = post_credits_earn c u score d s"
| "handle adm (GetWallet c u) s = get_wallet c u s"
| "handle adm (GetTransactions l u) s = get_transactions l u s"
| "handle adm (GetAdminCredits r) s = get_admin_credits adm r s"

text \<open>The store after a sequence of requests, served one after the other.\<close>

fun serve :: "string list \<Rightarrow> request list \<Rightarrow> db \<Rightarrow> db" where
  "serve adm [] s = s"
| "serve adm (r # rs) s = serve adm rs (snd (handle adm r s))"

section \<open>Notions used in the statements\<close>

text \<open>The balance of a user: the credits of the user's wallet, 0 without a wallet.\<close>

definition balance :: "db \<Rightarrow> string \<Rightarrow> int" where
  "balance s u = (case find (\<lambda>w. w_user w = u) (wallets s) of None \<Rightarrow> 0 | Some w \<Rightarrow> credits w)"

text \<open>The amounts of all transactions recorded for a user, added up.\<close>

definition ledger_sum :: "db \<Rightarrow> string \<Rightarrow> int" where
  "ledger_sum s u = sum_list (map amount (filter (\<lambda>t. t_user t = u) (transactions s)))"

text \<open>The reconciliation invariant: every balance is the sum of the user's transactions.\<close>

definition reconciled :: "db \<Rightarrow> bool" where
  "reconciled s = (\<forall>u. balance s u = ledger_sum s u)"

text \<open>The stored wallet of a user, if there is one.\<close>

definition wallet_of :: "db \<Rightarrow> string \<Rightarrow> wallet option" where
  "wallet_of s u = find (\<lambda>w. w_user w = u) (wallets s)"

text \<open>The requests that award credits, and the wallet lookup.\<close>

fun awards :: "request \<Rightarrow> bool" where
  "awards (PostFootprints c b) = True"
| "awards (PostCreditsEarn c u score d) = True"
| "awards _ = False"

fun wallet_lookup :: "request \<Rightarrow> bool" where
  "wallet_lookup (GetWallet c u) = True"
| "wallet_lookup _ = False"




text \<open>At most one footprint for each pair of a user and a date.\<close>

definition one_per_day :: "db \<Rightarrow> bool" where
  "one_per_day s = distinct (map (\<lambda>f. (fp_user f, fp_date f)) (footprints s))"

fun is_update :: "request \<Rightarrow> bool" where
  "is_update (PutFootprints i b) = True"
| "is_update _ = False"

definition footprint_by_id :: "db \<Rightarrow> nat \<Rightarrow> footprint option" where
  "footprint_by_id s i = find (\<lambda>f. fp_id f = i) (footprints s)"

text \<open>
  The merged field set in the words of the specification: the fields of the existing record
  overlaid with the fields the update supplies. The server does not compute it; it is here
  to be compared with what the update route derives the emissions from.
\<close>

definition stored_value :: "jsnum option \<Rightarrow> jsval" where
  "stored_value v = (case v of None \<Rightarrow> Undefined | Some n \<Rightarrow> Num n)"

definition spec_merged_fields :: "footprint \<Rightarrow> body \<Rightarrow> payload" where
  "spec_merged_fields f b =
     \<lparr>vehicle_type = set_string (vehicle_type b) (fp_vehicle_type f),
      distance_daily = (if distance_daily b = Undefined then stored_value (fp_distance_daily f)
                        else distance_daily b),
      diet_type = set_string (diet_type b) (fp_diet_type f),
      electricity_usage = (if electricity_usage b = Undefined
                           then stored_value (fp_electricity_usage f) else electricity_usage b),
      gas_usage = (if gas_usage b = Undefined then stored_value (fp_gas_usage f) else gas_usage b)\<rparr>"

text \<open>Reading the admin summary: the entry of a user, the group of a user, a user's footprints.\<close>

definition employee_for :: "summary \<Rightarrow> string \<Rightarrow> employee option" where
  "employee_for sm u = find (\<lambda>e. e_user e = u) (employees sm)"

definition average_for :: "db \<Rightarrow> string \<Rightarrow> average option" where
  "average_for s u = find (\<lambda>a. a_id a = u) (aggregate_averages s)"

definition footprints_of :: "db \<Rightarrow> string \<Rightarrow> footprint list" where
  "footprints_of s u = filter (\<lambda>f. fp_user f = u) (footprints s)"

definition group_of :: "db \<Rightarrow> string \<Rightarrow> average" where
  "group_of s u = \<lparr>a_id = u, averageScore = avg_total_score (footprints_of s u),
                   entries = length (footprints_of s u)\<rparr>"

section \<open>Example inputs\<close>

definition clock0 :: clock where
  "clock0 = \<lparr>today = ''2024-01-05'', now = 1000, day_start = 0, day_end = 86400000\<rparr>"

text \<open>The submission of the specification's end-to-end example.\<close>

definition body0 :: body where
  "body0 =
     \<lparr>vehicle_type = Some ''car-petrol'', distance_daily = Num (Fin 20),
      diet_type = Some ''vegan'', electricity_usage = Undefined, gas_usage = Undefined,
      user = Some ''a@x.com'', date = Some ''2024-01-01'', total_score = Undefined,
      travel_emissions = Undefined, food_emissions = Undefined, energy_emissions = Undefined\<rparr>"

definition footprint0 :: footprint where
  "footprint0 =
     \<lparr>fp_id = 0, fp_user = ''a@x.com'', fp_date = ''2024-01-01'',
      fp_vehicle_type = Some ''car-petrol'', fp_distance_daily = Some (Fin 20),
      fp_diet_type = Some ''vegan'', fp_electricity_usage = None, fp_gas_usage = None,
      fp_total_score = Some (Fin (nearest_double 6.31)),
      fp_travel_emissions = Some (Fin (nearest_double 3.42)),
      fp_food_emissions = Some (Fin (nearest_double 2.89)), fp_energy_emissions = Some (Fin 0)\<rparr>"

text \<open>The store after that submission into the empty store.\<close>

definition db1 :: db where
  "db1 =
     \<lparr>footprints = [footprint0],
      wallets = [\<lparr>w_user = ''a@x.com'', credits = 5, lastUpdated = 1000\<rparr>],
      transactions =
        [\<lparr>t_user = ''a@x.com'', amount = 5, t_type = Earn,
          t_reason = DailyFootprint ''2024-01-01'' (ToFixed1 (Fin (nearest_double 6.31))),
          t_date = 1000\<rparr>],
      next_id = 1\<rparr>"

definition summary1 :: credit_summary where
  "summary1 =
     \<lparr>baseCredits = 5, bonusCredits = 0, totalAwarded = 5,
      s_wallet = \<lparr>w_user = ''a@x.com'', credits = 5, lastUpdated = 1000\<rparr>,
      s_transactions = transactions db1\<rparr>"

text \<open>A partial update: a new daily distance and nothing else.\<close>

definition update0 :: body where
  "update0 =
     \<lparr>vehicle_type = None, distance_daily = Num (Fin 30), diet_type = None,
      electricity_usage = Undefined, gas_usage = Undefined, user = None, date = None,
      total_score = Undefined, travel_emissions = Undefined, food_emissions = Undefined,
      energy_emissions = Undefined\<rparr>"

text \<open>A full update: the example submission with a daily distance of 30.\<close>

definition update1 :: body where
  "update1 = body0\<lparr>distance_daily := Num (Fin 30)\<rparr>"

definition update_electricity :: body where
  "update_electricity = update0\<lparr>distance_daily := Undefined, electricity_usage := Num (Fin 30)\<rparr>"

text \<open>The store after a manual award of score 5 to a user named \<open>constructor\<close>.\<close>

definition db_constructor :: db where
  "db_constructor =
     \<lparr>footprints = [],
      wallets = [\<lparr>w_user = ''constructor'', credits = 5, lastUpdated = 1000\<rparr>],
      transactions =
        [\<lparr>t_user = ''constructor'', amount = 5, t_type = Earn,
          t_reason = DailyFootprint ''2024-01-05'' (ToFixed1 (Fin 5)), t_date = 1000\<rparr>],
      next_id = 0\<rparr>"

text \<open>A day by bicycle with no diet given: every emission is 0.\<close>

definition body_zero :: body where
  "body_zero =
     \<lparr>vehicle_type = Some ''bicycle'', distance_daily = Num (Fin 12), diet_type = None,
      electricity_usage = Undefined, gas_usage = Undefined,
      user = Some ''z@x.com'', date = Some ''2024-01-01'', total_score = Undefined,
      travel_emissions = Undefined, food_emissions = Undefined, energy_emissions = Undefined\<rparr>"

definition db_zero :: db where
  "db_zero =
     \<lparr>footprints =
        [\<lparr>fp_id = 0, fp_user = ''z@x.com'', fp_date = ''2024-01-01'',
          fp_vehicle_type = Some ''bicycle'', fp_distance_daily = Some (Fin 12),
          fp_diet_type = None, fp_electricity_usage = None, fp_gas_usage = None,
          fp_total_score = Some (Fin 0), fp_travel_emissions = Some (Fin 0),
          fp_food_emissions = Some (Fin 0), fp_energy_emissions = Some (Fin 0)\<rparr>],
      wallets = [\<lparr>w_user = ''z@x.com'', credits = 5, lastUpdated = 1000\<rparr>],
      transactions =
        [\<lparr>t_user = ''z@x.com'', amount = 5, t_type = Earn,
          t_reason = DailyFootprint ''2024-01-01'' (ToFixed1 (Fin 0)), t_date = 1000\<rparr>],
      next_id = 1\<rparr>"


text \<open>A manual award of score 5 for the next day, and what it produces from \<open>db1\<close>.\<close>

definition summary2 :: credit_summary where
  "summary2 =
     \<lparr>baseCredits = 5, bonusCredits = 2, totalAwarded = 7,
      s_wallet = \<lparr>w_user = ''a@x.com'', credits = 12, lastUpdated = 1000\<rparr>,
      s_transactions =
        [\<lparr>t_user = ''a@x.com'', amount = 5, t_type = Earn,
          t_reason = DailyFootprint ''2024-01-02'' (ToFixed1 (Fin 5)), t_date = 1000\<rparr>,
         \<lparr>t_user = ''a@x.com'', amount = 2, t_type = Bonus,
          t_reason = ImprovedScore (ToFixed1 (Fin (nearest_double 6.31))), t_date = 1000\<rparr>]\<rparr>"

definition db2 :: db where
  "db2 =
     db1\<lparr>wallets := [\<lparr>w_user = ''a@x.com'', credits = 12, lastUpdated = 1000\<rparr>],
         transactions := transactions db1 @ s_transactions summary2\<rparr>"

definition requests0 :: "request list" where
  "requests0 =
     [PostFootprints clock0 body0,
      PostCreditsEarn clock0 (Some ''a@x.com'') (Num (Fin 5)) (Some ''2024-01-02'')]"

section \<open>Wallet and award lemmas\<close>

lemma find_wallet_user: "find (\<lambda>w. w_user w = u) ws = Some w \<Longrightarrow> w_user w = u"
  by (induction ws) (auto split: if_splits)

lemma find_save_wallet:
  "find (\<lambda>x. w_user x = v) (save_wallet w ws) =
     (if v = w_user w then (if find (\<lambda>x. w_user x = v) ws = None then None else Some w)
      else find (\<lambda>x. w_user x = v) ws)"
  by (induction ws) auto

lemma find_append_new:
  "find P (xs @ [x]) = (case find P xs of Some y \<Rightarrow> Some y | None \<Rightarrow> if P x then Some x else None)"
  by (induction xs) auto

lemma ensureWallet_cases:
  assumes "u \<noteq> []"
  shows "ensureWallet c u s =
     (case find (\<lambda>w. w_user w = u) (wallets s) of
        Some w \<Rightarrow> (Inr w, s)
      | None \<Rightarrow> (Inr \<lparr>w_user = u, credits = 0, lastUpdated = now c\<rparr>,
                 s\<lparr>wallets := wallets s @ [\<lparr>w_user = u, credits = 0, lastUpdated = now c\<rparr>]\<rparr>))"
  using assms by (simp add: ensureWallet_def Let_def split: option.splits)

lemma rounded_not_NaN [simp]: "rounded q \<noteq> NaN"
  by (simp add: rounded_def Let_def)

lemma nearest_double_zero [simp]: "nearest_double 0 = 0"
  by (simp add: nearest_double_def)

lemma rounded_zero [simp]: "rounded 0 = Fin 0"
  by (simp add: rounded_def)

text \<open>The doubles of the examples, as the rationals they denote.\<close>

lemma double_value_1: "nearest_double (171 / 1000) = 6160924290242839 / 36028797018963968"
  by code_simp

lemma double_value_2: "nearest_double (289 / 100) = 6507701461550367 / 2251799813685248"
  by code_simp

lemma double_value_3: "nearest_double (19 / 40) = 4278419646001971 / 9007199254740992"
  by code_simp

lemma double_value_4: "nearest_double (30804621451214195 / 9007199254740992) = 7701155362803549 / 2251799813685248"
  by code_simp

lemma double_value_5: "nearest_double (3552214206088479 / 562949953421312) = 3552214206088479 / 562949953421312"
  by code_simp

lemma double_value_6: "nearest_double (171 / 50) = 1925288840700887 / 562949953421312"
  by code_simp

lemma double_value_7: "nearest_double (631 / 100) = 7104428412176957 / 1125899906842624"
  by code_simp

lemma double_value_8: "nearest_double (92413864353642585 / 18014398509481984) = 2887933261051331 / 562949953421312"
  by code_simp

lemma double_value_9: "nearest_double (18059434505755691 / 2251799813685248) = 4514858626438923 / 562949953421312"
  by code_simp

lemma double_value_10: "nearest_double (4514858626438923 / 562949953421312) = 4514858626438923 / 562949953421312"
  by code_simp

lemma double_value_11: "nearest_double (513 / 100) = 5775866522102661 / 1125899906842624"
  by code_simp

lemma double_value_12: "nearest_double (401 / 50) = 2257429313219461 / 281474976710656"
  by code_simp

lemma double_value_13: "nearest_double (6160924290242839 / 36028797018963968) = 6160924290242839 / 36028797018963968"
  by code_simp

lemma double_value_14: "nearest_double 1 = 1"
  by code_simp

lemma double_value_15: "nearest_double (4278419646001971 / 9007199254740992) = 4278419646001971 / 9007199254740992"
  by code_simp

lemma double_value_16: "nearest_double (47 / 100) = 2116691824864133 / 4503599627370496"
  by code_simp

lemmas double_values =
  double_value_1
  double_value_2
  double_value_3
  double_value_4
  double_value_5
  double_value_6
  double_value_7
  double_value_8
  double_value_9
  double_value_10
  double_value_11
  double_value_12
  double_value_13
  double_value_14
  double_value_15
  double_value_16

lemma bonus_values: "bonusCreditsFor a b = 0 \<or> bonusCreditsFor a b = 2"
  by (simp add: bonusCreditsFor_def split: option.splits)

lemma bonus_not_pos: "\<not> 0 < bonusCreditsFor a b \<Longrightarrow> bonusCreditsFor a b = 0"
  using bonus_values [of a b] by auto

lemma award_fail:
  "falsy_string u \<or> ToNumber sc = NaN \<Longrightarrow>
   awardCreditsForFootprint c u sc d s =
     (Inl (Error ''Valid user and score are required to award credits.''), s)"
  by (auto simp: awardCreditsForFootprint_def Let_def)

lemma award_success:
  assumes "\<not> falsy_string u" "ToNumber sc \<noteq> NaN"
  shows "\<exists>cs s'. awardCreditsForFootprint c u sc d s = (Inr cs, s')
      \<and> baseCredits cs = baseCreditsForScore (ToNumber sc)
      \<and> bonusCredits cs = bonusCreditsFor (ToNumber sc) (getPreviousScore (the u) (dateLabel_of c d) s)
      \<and> totalAwarded cs = baseCredits cs + bonusCredits cs
      \<and> transactions s' = transactions s @ s_transactions cs
      \<and> footprints s' = footprints s \<and> next_id s' = next_id s
      \<and> list_all (\<lambda>t. t_user t = the u) (s_transactions cs)
      \<and> sum_list (map amount (s_transactions cs)) = baseCredits cs + bonusCredits cs
      \<and> balance s' (the u) = balance s (the u) + (baseCredits cs + bonusCredits cs)
      \<and> (\<forall>v. v \<noteq> the u \<longrightarrow> balance s' v = balance s v)"
proof -
  obtain x where u: "u = Some x" "x \<noteq> []"
    using assms(1) by (auto simp: falsy_string_def split: option.splits)
  show ?thesis
    using assms u
    by (auto simp: awardCreditsForFootprint_def Let_def ensureWallet_cases
          balance_def find_save_wallet find_append_new bonus_not_pos
          dest: find_wallet_user split: option.splits)
qed

lemma base_tiers:
  "baseCreditsForScore (Fin x) = (if x < 10 then 5 else if x \<le> 20 then 3 else 1)"
  by (auto simp: baseCreditsForScore_def num_le_def)

lemma bonus_rule:
  "bonusCreditsFor n prev = (if (\<exists>p. prev = Some p \<and> num_lt n p) then 2 else 0)"
  by (auto simp: bonusCreditsFor_def split: option.splits)

text \<open>The boundary and bonus examples of the specification.\<close>

lemma credit_policy_examples:
  "baseCreditsForScore (Fin 10) = 3" "baseCreditsForScore (Fin 9.99) = 5"
  "baseCreditsForScore (Fin 20) = 3" "baseCreditsForScore (Fin 20.01) = 1"
  "bonusCreditsFor (Fin 8) (Some (Fin 10)) = 2" "bonusCreditsFor (Fin 10) (Some (Fin 10)) = 0"
  "bonusCreditsFor (Fin 8) None = 0"
  by (simp_all add: base_tiers bonus_rule)

lemma previous_score_db1:
  "getPreviousScore ''a@x.com'' ''2024-01-02'' db1 = Some (Fin (nearest_double 6.31))"
  by (simp add: getPreviousScore_def db1_def footprint0_def)

section \<open>The credit policy\<close>

text \<open>
  Claim C2. For every finite score \<open>x\<close> the base credits are 5 below 10, 3 from 10 to 20
  (both bounds included) and 1 above 20, and the bonus is 2 exactly when there is a previous
  score and the score is strictly below it, else 0. The third part says that these are the
  credits an award for a present user and that score grants, the previous score being the
  one the footprints hold for the user before the date of the award.
\<close>

theorem credit_policy_tiers:
  "baseCreditsForScore (Fin x) = (if x < 10 then 5 else if x \<le> 20 then 3 else 1)
   \<and> bonusCreditsFor (Fin x) prev = (if (\<exists>p. prev = Some p \<and> num_lt (Fin x) p) then 2 else 0)
   \<and> (u \<noteq> [] \<longrightarrow>
        (\<exists>cs s'. awardCreditsForFootprint c (Some u) (Num (Fin x)) d s = (Inr cs, s')
           \<and> baseCredits cs = (if x < 10 then 5 else if x \<le> 20 then 3 else 1)
           \<and> bonusCredits cs =
               (if (\<exists>p. getPreviousScore u (dateLabel_of c d) s = Some p \<and> num_lt (Fin x) p)
                then 2 else 0)))"
proof (intro conjI impI)
  show "baseCreditsForScore (Fin x) = (if x < 10 then 5 else if x \<le> 20 then 3 else 1)"
    by (rule base_tiers)
  show "bonusCreditsFor (Fin x) prev = (if (\<exists>p. prev = Some p \<and> num_lt (Fin x) p) then 2 else 0)"
    by (rule bonus_rule)
  assume "u \<noteq> []"
  then have "\<not> falsy_string (Some u)" "ToNumber (Num (Fin x)) \<noteq> NaN"
    by (simp_all add: falsy_string_def)
  from award_success [OF this, of c d s]
  obtain cs s' where a: "awardCreditsForFootprint c (Some u) (Num (Fin x)) d s = (Inr cs, s')"
    and b: "baseCredits cs = baseCreditsForScore (ToNumber (Num (Fin x)))"
    and n: "bonusCredits cs =
              bonusCreditsFor (ToNumber (Num (Fin x))) (getPreviousScore (the (Some u)) (dateLabel_of c d) s)"
    by blast
  from b have "baseCredits cs = (if x < 10 then 5 else if x \<le> 20 then 3 else 1)"
    by (simp add: base_tiers)
  moreover from n have "bonusCredits cs =
      (if (\<exists>p. getPreviousScore u (dateLabel_of c d) s = Some p \<and> num_lt (Fin x) p) then 2 else 0)"
    by (simp add: bonus_rule)
  ultimately show "\<exists>cs s'. awardCreditsForFootprint c (Some u) (Num (Fin x)) d s = (Inr cs, s')
           \<and> baseCredits cs = (if x < 10 then 5 else if x \<le> 20 then 3 else 1)
           \<and> bonusCredits cs =
               (if (\<exists>p. getPreviousScore u (dateLabel_of c d) s = Some p \<and> num_lt (Fin x) p)
                then 2 else 0)"
    using a by blast
qed

theorem credit_policy_tiers_witness:
  "baseCreditsForScore (Fin 5) = 5
   \<and> bonusCreditsFor (Fin 5) (Some (Fin 10)) = 2
   \<and> ''a@x.com'' \<noteq> []
   \<and> (\<exists>cs s'. awardCreditsForFootprint clock0 (Some ''a@x.com'') (Num (Fin 5)) (Some ''2024-01-02'') db1
                 = (Inr cs, s')
         \<and> baseCredits cs = 5 \<and> bonusCredits cs = 2)"
  using credit_policy_tiers [of 5 "Some (Fin 10)" "''a@x.com''" clock0 "Some ''2024-01-02''" db1]
  by (simp add: dateLabel_of_def falsy_string_def previous_score_db1 double_values)

section \<open>Evaluating the examples\<close>

lemma floor_rat_numeral [simp]: "\<lfloor>(numeral a / numeral b :: rat)\<rfloor> = numeral a div numeral b"
  using floor_divide_of_int_eq [of "numeral a" "numeral b", where ?'a = rat] by simp

lemmas derive_evaluation =
  deriveEmissions_def Let_def table_get_def VEHICLE_EMISSIONS_def DIET_EMISSIONS_def
  object_prototype_keys_def js_or_def js_mul_def js_div_def js_add_def ELECTRICITY_FACTOR_def
  GAS_FACTOR_def rounded_def double_values

lemma emissions_body0:
  "deriveEmissions body0 =
     \<lparr>travel = Num (Fin (7701155362803549 / 2251799813685248)),
      food = Num (Fin (6507701461550367 / 2251799813685248)), energy = Num (Fin 0),
      total = Num (Fin (3552214206088479 / 562949953421312))\<rparr>"
  by (simp add: deriveEmissions_def body0_def Let_def table_get_def VEHICLE_EMISSIONS_def
      DIET_EMISSIONS_def js_or_def js_mul_def js_div_def js_add_def ELECTRICITY_FACTOR_def
      GAS_FACTOR_def rounded_def double_values)

lemma award_db1:
  "awardCreditsForFootprint clock0 (Some ''a@x.com'') (Num (Fin 5)) (Some ''2024-01-02'') db1
     = (Inr summary2, db2)"
  by (simp add: awardCreditsForFootprint_def Let_def falsy_string_def dateLabel_of_def
      getPreviousScore_def footprint0_def baseCreditsForScore_def bonusCreditsFor_def
      formatScore_def ensureWallet_def summary2_def db2_def db1_def clock0_def double_values)

lemma backfill_body0:
  "backfill_emissions body0 =
     Inr (body0\<lparr>travel_emissions := Num (Fin (1925288840700887 / 562949953421312)),
                food_emissions := Num (Fin (6507701461550367 / 2251799813685248)),
                energy_emissions := Num (Fin 0),
                total_score := Num (Fin (7104428412176957 / 1125899906842624))\<rparr>)"
  by (simp add: backfill_emissions_def emissions_body0 Let_def)
     (simp add: body0_def backfill_def round2_def rounded_def double_values)

lemma post_body0:
  "post_footprints clock0 body0 empty_db = (FootprintSaved (Some summary1), db1)"
proof -
  have b: "body0\<lparr>date := Some (dateLabel_of clock0 (date body0))\<rparr> = body0"
    by (simp add: body0_def dateLabel_of_def falsy_string_def)
  show ?thesis
    by (simp add: post_footprints_def Let_def b backfill_body0)
       (simp add: clock0_def body0_def empty_db_def db1_def footprint0_def summary1_def
          falsy_string_def alreadySubmitted_def save_and_award_def dateLabel_of_def Let_def
          number_paths_def new_Footprint_def awardCreditsForFootprint_def
          baseCreditsForScore_def getPreviousScore_def bonusCreditsFor_def ensureWallet_def
          double_values)
qed

lemma serve_requests0: "serve adm requests0 empty_db = db2"
  by (simp add: requests0_def post_body0 post_credits_earn_def falsy_string_def award_db1)

section \<open>Reconciliation of wallets and transactions\<close>

lemma ledger_frame:
  "wallets s' = wallets s \<Longrightarrow> transactions s' = transactions s \<Longrightarrow> reconciled s \<Longrightarrow> reconciled s'"
  by (simp add: reconciled_def balance_def ledger_sum_def)

lemma filter_all_user:
  "list_all (\<lambda>t. t_user t = u) ts \<Longrightarrow>
   filter (\<lambda>t. t_user t = v) ts = (if v = u then ts else [])"
  by (induction ts) auto

lemma award_reconciled:
  assumes "reconciled s"
  shows "reconciled (snd (awardCreditsForFootprint c u sc d s))"
proof (cases "falsy_string u \<or> ToNumber sc = NaN")
  case True
  then show ?thesis using assms by (simp add: award_fail)
next
  case False
  then have h: "\<not> falsy_string u" "ToNumber sc \<noteq> NaN" by auto
  from award_success [OF h, of c d s]
  obtain cs s' where a: "awardCreditsForFootprint c u sc d s = (Inr cs, s')"
    and t: "transactions s' = transactions s @ s_transactions cs"
    and l: "list_all (\<lambda>t. t_user t = the u) (s_transactions cs)"
    and m: "sum_list (map amount (s_transactions cs)) = baseCredits cs + bonusCredits cs"
    and b: "balance s' (the u) = balance s (the u) + (baseCredits cs + bonusCredits cs)"
    and o: "\<forall>v. v \<noteq> the u \<longrightarrow> balance s' v = balance s v"
    by blast
  have "balance s' v = ledger_sum s' v" for v
  proof (cases "v = the u")
    case True
    then show ?thesis
      using assms b t m by (simp add: reconciled_def ledger_sum_def filter_all_user [OF l])
  next
    case False
    then show ?thesis
      using assms o t by (simp add: reconciled_def ledger_sum_def filter_all_user [OF l])
  qed
  then show ?thesis using a by (simp add: reconciled_def)
qed

lemma ensureWallet_balance:
  "balance (snd (ensureWallet c u s)) v = balance s v"
  by (simp add: ensureWallet_def balance_def Let_def find_append_new split: option.splits)

lemma ensureWallet_transactions:
  "transactions (snd (ensureWallet c u s)) = transactions s"
  by (simp add: ensureWallet_def Let_def split: option.splits)

lemma ensureWallet_reconciled:
  "reconciled s \<Longrightarrow> reconciled (snd (ensureWallet c u s))"
  by (simp add: reconciled_def ensureWallet_balance ledger_sum_def ensureWallet_transactions)

lemma snd_award_response:
  "snd (case awardCreditsForFootprint c v sc w t of
          (Inl x, s2) \<Rightarrow> (Failed 500 ''Error saving footprint'', s2)
        | (Inr creditSummary, s2) \<Rightarrow> (FootprintSaved (Some creditSummary), s2))
   = snd (awardCreditsForFootprint c v sc w t)"
  by (simp split: prod.splits sum.splits)

lemma save_and_award_state:
  "snd (save_and_award c u d b1 s) = s
   \<or> (\<exists>e k. snd (save_and_award c u d b1 s) = s\<lparr>footprints := footprints s @ [e], next_id := k\<rparr>)
   \<or> (\<exists>e k v sc w. snd (save_and_award c u d b1 s) =
         snd (awardCreditsForFootprint c v sc w (s\<lparr>footprints := footprints s @ [e], next_id := k\<rparr>)))"
proof (cases "list_all castable (number_paths b1)")
  case False
  then show ?thesis by (simp add: save_and_award_def)
next
  case True
  show ?thesis
  proof (cases "typeof_number (total_score b1)")
    case False
    with True show ?thesis by (simp add: save_and_award_def Let_def) blast
  next
    case t: True
    with True have "snd (save_and_award c u d b1 s) =
        snd (awardCreditsForFootprint c (Some u) (total_score b1) (Some d)
               (s\<lparr>footprints := footprints s @ [new_Footprint (next_id s) u d b1],
                  next_id := next_id s + 1\<rparr>))"
      by (simp add: save_and_award_def Let_def snd_award_response)
    then show ?thesis by blast
  qed
qed

lemma post_footprints_state:
  "snd (post_footprints c b s) = s
   \<or> (\<exists>e k. snd (post_footprints c b s) = s\<lparr>footprints := footprints s @ [e], next_id := k\<rparr>)
   \<or> (\<exists>e k u sc d. snd (post_footprints c b s) =
         snd (awardCreditsForFootprint c u sc d (s\<lparr>footprints := footprints s @ [e], next_id := k\<rparr>)))"
  using save_and_award_state
  by (simp add: post_footprints_def Let_def split: sum.splits)

lemma post_footprints_reconciled:
  assumes "reconciled s" shows "reconciled (snd (post_footprints c b s))"
proof -
  have f: "reconciled (s\<lparr>footprints := footprints s @ [e], next_id := k\<rparr>)" for e k
    using assms by (simp add: reconciled_def balance_def ledger_sum_def)
  from post_footprints_state [of c b s] show ?thesis
    using assms f award_reconciled by metis
qed

lemma handle_reconciled:
  assumes "reconciled s" shows "reconciled (snd (handle adm r s))"
proof (cases r)
  case (PostFootprints c b)
  then show ?thesis using assms by (simp add: post_footprints_reconciled)
next
  case (GetFootprints u)
  then show ?thesis using assms by (simp add: get_footprints_def)
next
  case (DeleteFootprints i)
  then show ?thesis using assms
    by (auto simp: delete_footprints_def split: route_id.splits intro: ledger_frame)
next
  case (PutFootprints i b)
  then show ?thesis using assms
    by (auto simp: put_footprints_def Let_def split: option.splits route_id.splits
        intro: ledger_frame)
next
  case (PostCreditsEarn c u sc d)
  then show ?thesis using assms award_reconciled [OF assms, of c u sc d]
    by (auto simp: post_credits_earn_def split: prod.splits sum.splits)
next
  case (GetWallet c u)
  then show ?thesis using assms ensureWallet_reconciled [OF assms, of c u]
    by (auto simp: get_wallet_def Let_def split: prod.splits sum.splits)
next
  case (GetTransactions l u)
  then show ?thesis using assms by (simp add: get_transactions_def Let_def)
next
  case (GetAdminCredits q)
  then show ?thesis using assms by (simp add: get_admin_credits_def Let_def)
qed

lemma serve_reconciled: "reconciled s \<Longrightarrow> reconciled (serve adm rs s)"
  by (induction rs arbitrary: s) (auto simp: handle_reconciled)

lemma reconciled_empty: "reconciled empty_db"
  by (simp add: reconciled_def balance_def ledger_sum_def empty_db_def)

text \<open>
  Claim C1. From a store in which every balance equals the sum of the user's transaction
  amounts (the empty store is one), any sequence of requests, served one after the other,
  leads to a store in which the balance of every user equals the sum of the amounts of the
  transactions recorded for that user. Every successful award, whether it comes from a
  footprint submission or from the manual route, appends its transactions, all for the user
  of the award, and raises that user's balance by their total, base plus bonus.
\<close>

theorem wallet_reconciliation:
  "(reconciled s \<longrightarrow> balance (serve adm rs s) u = ledger_sum (serve adm rs s) u)
   \<and> (awardCreditsForFootprint c usr sc d s = (Inr cs, s') \<longrightarrow>
        transactions s' = transactions s @ s_transactions cs
      \<and> list_all (\<lambda>t. t_user t = the usr) (s_transactions cs)
      \<and> sum_list (map amount (s_transactions cs)) = baseCredits cs + bonusCredits cs
      \<and> balance s' (the usr) = balance s (the usr) + (baseCredits cs + bonusCredits cs))"
proof (intro conjI impI)
  assume "reconciled s"
  then have "reconciled (serve adm rs s)" by (rule serve_reconciled)
  then show "balance (serve adm rs s) u = ledger_sum (serve adm rs s) u"
    by (simp add: reconciled_def)
next
  assume a: "awardCreditsForFootprint c usr sc d s = (Inr cs, s')"
  have h: "\<not> falsy_string usr" "ToNumber sc \<noteq> NaN"
    using a award_fail [of usr sc c d s] by auto
  from award_success [OF h, of c d s] a
  show "transactions s' = transactions s @ s_transactions cs"
    and "list_all (\<lambda>t. t_user t = the usr) (s_transactions cs)"
    and "sum_list (map amount (s_transactions cs)) = baseCredits cs + bonusCredits cs"
    and "balance s' (the usr) = balance s (the usr) + (baseCredits cs + bonusCredits cs)"
    by auto
qed

theorem wallet_reconciliation_witness:
  "reconciled empty_db
   \<and> balance (serve [] requests0 empty_db) ''a@x.com'' = 12
   \<and> ledger_sum (serve [] requests0 empty_db) ''a@x.com'' = 12
   \<and> awardCreditsForFootprint clock0 (Some ''a@x.com'') (Num (Fin 5)) (Some ''2024-01-02'') db1
       = (Inr summary2, db2)
   \<and> transactions db2 = transactions db1 @ s_transactions summary2
   \<and> sum_list (map amount (s_transactions summary2)) = 7
   \<and> balance db2 ''a@x.com'' = balance db1 ''a@x.com'' + 7"
  using wallet_reconciliation [of empty_db "[]" requests0 "''a@x.com''" clock0 "Some ''a@x.com''"
      "Num (Fin 5)" "Some ''2024-01-02''" summary2 db2]
  by (simp add: reconciled_empty serve_requests0 award_db1)
    (simp add: db2_def db1_def summary2_def balance_def award_db1 empty_db_def)

section \<open>Validation of an award\<close>

text \<open>
  Claim C4 as stated asks that an award fails for every score that is not finite. The guard
  of \<open>awardCreditsForFootprint\<close> is \<open>Number.isNaN\<close>: the award for the score \<open>+Infinity\<close>
  succeeds and grants one credit.
\<close>

theorem award_infinite_score_counterexample:
  "\<not> isl (fst (awardCreditsForFootprint clock0 (Some ''a@x.com'') (Num PInf) None empty_db))
   \<and> balance (snd (awardCreditsForFootprint clock0 (Some ''a@x.com'') (Num PInf) None empty_db))
        ''a@x.com'' = 1"
  by (simp add: awardCreditsForFootprint_def Let_def falsy_string_def dateLabel_of_def
      baseCreditsForScore_def num_le_def getPreviousScore_def bonusCreditsFor_def
      ensureWallet_def empty_db_def clock0_def balance_def)

text \<open>
  Claim C4, amended. The award fails, with the message of the guard and without any
  change to the store, exactly for an absent or empty user and for a score that
  \<open>Number\<close> turns into \<open>NaN\<close>; for a present user and any other score, the infinities
  included, it succeeds and grants the base credits of the score plus the bonus.
\<close>

theorem award_validation:
  "(falsy_string u \<or> ToNumber sc = NaN \<longrightarrow>
      awardCreditsForFootprint c u sc d s
        = (Inl (Error ''Valid user and score are required to award credits.''), s))
   \<and> (\<not> falsy_string u \<and> ToNumber sc \<noteq> NaN \<longrightarrow>
        (\<exists>cs s'. awardCreditsForFootprint c u sc d s = (Inr cs, s')
           \<and> totalAwarded cs =
               baseCreditsForScore (ToNumber sc)
               + bonusCreditsFor (ToNumber sc) (getPreviousScore (the u) (dateLabel_of c d) s)))"
proof (intro conjI impI)
  assume "falsy_string u \<or> ToNumber sc = NaN"
  then show "awardCreditsForFootprint c u sc d s
        = (Inl (Error ''Valid user and score are required to award credits.''), s)"
    by (rule award_fail)
next
  assume "\<not> falsy_string u \<and> ToNumber sc \<noteq> NaN"
  then have h: "\<not> falsy_string u" "ToNumber sc \<noteq> NaN" by auto
  from award_success [OF h, of c d s]
  show "\<exists>cs s'. awardCreditsForFootprint c u sc d s = (Inr cs, s')
           \<and> totalAwarded cs =
               baseCreditsForScore (ToNumber sc)
               + bonusCreditsFor (ToNumber sc) (getPreviousScore (the u) (dateLabel_of c d) s)"
    by auto
qed

theorem award_validation_witness:
  "falsy_string None
   \<and> awardCreditsForFootprint clock0 None (Num (Fin 5)) None db1
       = (Inl (Error ''Valid user and score are required to award credits.''), db1)
   \<and> ToNumber Undefined = NaN
   \<and> awardCreditsForFootprint clock0 (Some ''a@x.com'') Undefined None db1
       = (Inl (Error ''Valid user and score are required to award credits.''), db1)
   \<and> \<not> falsy_string (Some ''a@x.com'') \<and> ToNumber (Num NInf) \<noteq> NaN
   \<and> (\<exists>cs s'. awardCreditsForFootprint clock0 (Some ''a@x.com'') (Num NInf) None db1 = (Inr cs, s')
         \<and> totalAwarded cs = 7)"
  using award_validation [of None "Num (Fin 5)" clock0 None db1]
    award_validation [of "Some ''a@x.com''" Undefined clock0 None db1]
    award_validation [of "Some ''a@x.com''" "Num NInf" clock0 None db1]
  by (simp add: falsy_string_def baseCreditsForScore_def bonusCreditsFor_def dateLabel_of_def
      getPreviousScore_def db1_def footprint0_def clock0_def)

section \<open>Wallets are created by awards and lookups\<close>

lemma get_wallet_state:
  "snd (get_wallet c u s) = snd (ensureWallet c u s)"
  by (simp add: get_wallet_def Let_def split: prod.splits sum.splits)

lemma ensureWallet_state:
  "snd (ensureWallet c u s) =
     (if u = [] \<or> wallet_of s u \<noteq> None then s
      else s\<lparr>wallets := wallets s @ [\<lparr>w_user = u, credits = 0, lastUpdated = now c\<rparr>]\<rparr>)"
  by (auto simp: ensureWallet_def wallet_of_def Let_def split: option.splits)

lemma find_append_keep: "find P xs = Some y \<Longrightarrow> find P (xs @ ys) = Some y"
  by (induction xs) (auto split: if_splits)

lemma wallet_of_append:
  "wallet_of s v = Some w \<Longrightarrow> wallet_of (s\<lparr>wallets := wallets s @ ws\<rparr>) v = Some w"
  by (simp add: wallet_of_def find_append_keep)

lemma handle_keeps_wallets:
  assumes "\<not> awards r" "\<not> wallet_lookup r"
  shows "wallets (snd (handle adm r s)) = wallets s"
  using assms
  by (cases r)
    (auto simp: get_footprints_def delete_footprints_def put_footprints_def
       get_transactions_def get_admin_credits_def Let_def split: option.splits route_id.splits)

lemma handle_keeps_wallet:
  assumes "\<not> awards r" "wallet_of s v = Some w"
  shows "wallet_of (snd (handle adm r s)) v = Some w"
proof (cases "wallet_lookup r")
  case False
  with assms handle_keeps_wallets [of r adm s] show ?thesis by (simp add: wallet_of_def)
next
  case True
  then obtain c u where r: "r = GetWallet c u" by (cases r) auto
  show ?thesis
    using assms(2) by (auto simp: r get_wallet_state ensureWallet_state wallet_of_append)
qed

text \<open>
  Claim C6 as stated asks that the wallet lookup creates no wallet. The lookup calls
  \<open>ensureWallet\<close>: for a user without a wallet it stores one with balance 0.
\<close>

theorem wallet_lookup_creates_counterexample:
  "wallet_of db1 ''b@x.com'' = None
   \<and> wallet_of (snd (get_wallet clock0 ''b@x.com'' db1)) ''b@x.com''
       = Some \<lparr>w_user = ''b@x.com'', credits = 0, lastUpdated = 1000\<rparr>
   \<and> wallets (snd (get_wallet clock0 ''b@x.com'' db1)) \<noteq> wallets db1"
  by (simp add: wallet_of_def get_wallet_def ensureWallet_def db1_def clock0_def Let_def)

text \<open>
  Claim C6, amended. The wallet lookup leaves the footprints and the transactions as they
  are, and the wallets too when the user has one; for a user without a wallet it appends a
  wallet with balance 0. A request that is not an award (not a footprint submission, not a
  manual award) leaves every stored wallet as it is, and one that is neither an award nor a
  wallet lookup leaves the whole list of wallets as it is.
\<close>

theorem wallet_frame:
  "footprints (snd (get_wallet c u s)) = footprints s
   \<and> transactions (snd (get_wallet c u s)) = transactions s
   \<and> wallets (snd (get_wallet c u s)) =
       (if u = [] \<or> wallet_of s u \<noteq> None then wallets s
        else wallets s @ [\<lparr>w_user = u, credits = 0, lastUpdated = now c\<rparr>])
   \<and> (\<not> awards r \<and> wallet_of s v = Some w \<longrightarrow> wallet_of (snd (handle adm r s)) v = Some w)
   \<and> (\<not> awards r \<and> \<not> wallet_lookup r \<longrightarrow> wallets (snd (handle adm r s)) = wallets s)"
  using handle_keeps_wallet [of r s v w adm] handle_keeps_wallets [of r adm s]
  by (simp add: get_wallet_state ensureWallet_state)

theorem wallet_frame_witness:
  "wallets (snd (get_wallet clock0 ''a@x.com'' db1)) = wallets db1
   \<and> \<not> awards (GetWallet clock0 ''b@x.com'')
   \<and> wallet_of db1 ''a@x.com'' = Some \<lparr>w_user = ''a@x.com'', credits = 5, lastUpdated = 1000\<rparr>
   \<and> wallet_of (snd (handle [] (GetWallet clock0 ''b@x.com'') db1)) ''a@x.com''
       = Some \<lparr>w_user = ''a@x.com'', credits = 5, lastUpdated = 1000\<rparr>
   \<and> \<not> awards (DeleteFootprints (ObjectId 0)) \<and> \<not> wallet_lookup (DeleteFootprints (ObjectId 0))
   \<and> wallets (snd (handle [] (DeleteFootprints (ObjectId 0)) db1)) = wallets db1"
  using wallet_frame [of clock0 "''a@x.com''" db1 "GetWallet clock0 ''b@x.com''" "''a@x.com''"
      "\<lparr>w_user = ''a@x.com'', credits = 5, lastUpdated = 1000\<rparr>" "[]"]
    wallet_frame [of clock0 "''a@x.com''" db1 "DeleteFootprints (ObjectId 0)" "''a@x.com''"
      "\<lparr>w_user = ''a@x.com'', credits = 5, lastUpdated = 1000\<rparr>" "[]"]
  by (simp add: wallet_of_def db1_def)

section \<open>The emissions formula\<close>







section \<open>One footprint for a user and a date\<close>

lemma award_footprints:
  "footprints (snd (awardCreditsForFootprint c u sc d s)) = footprints s"
proof (cases "falsy_string u \<or> ToNumber sc = NaN")
  case True
  then show ?thesis by (simp add: award_fail)
next
  case False
  then have h: "\<not> falsy_string u" "ToNumber sc \<noteq> NaN" by auto
  from award_success [OF h, of c d s] show ?thesis by auto
qed

lemma backfill_number: "backfill g v = Inr x \<Longrightarrow> typeof_number x"
  by (cases v) (auto simp: backfill_def split: if_splits)

lemma backfill_emissions_total:
  "backfill_emissions b0 = Inr b1 \<Longrightarrow> typeof_number (total_score b1)"
  by (auto simp: backfill_emissions_def Let_def split: sum.splits dest: backfill_number)

lemma post_footprints_saved:
  assumes "post_footprints c b s = (FootprintSaved x, s')"
  shows "\<exists>b1 cs. \<not> falsy_string (user b)
      \<and> \<not> alreadySubmitted (the (user b)) (dateLabel_of c (date b)) s
      \<and> backfill_emissions (b\<lparr>date := Some (dateLabel_of c (date b))\<rparr>) = Inr b1
      \<and> list_all castable (number_paths b1)
      \<and> typeof_number (total_score b1)
      \<and> x = Some cs
      \<and> awardCreditsForFootprint c (Some (the (user b))) (total_score b1)
            (Some (dateLabel_of c (date b)))
            (s\<lparr>footprints := footprints s @
                  [new_Footprint (next_id s) (the (user b)) (dateLabel_of c (date b)) b1],
               next_id := next_id s + 1\<rparr>) = (Inr cs, s')"
  using assms
  by (auto simp: post_footprints_def save_and_award_def Let_def
      split: if_splits sum.splits prod.splits dest: backfill_emissions_total)

lemma new_Footprint_key [simp]:
  "fp_user (new_Footprint i u d b) = u" "fp_date (new_Footprint i u d b) = d"
  by (simp_all add: new_Footprint_def)

lemma post_footprints_footprints:
  "footprints (snd (post_footprints c b s)) = footprints s
   \<or> (\<not> alreadySubmitted (the (user b)) (dateLabel_of c (date b)) s
      \<and> (\<exists>e. footprints (snd (post_footprints c b s)) = footprints s @ [e]
             \<and> fp_user e = the (user b) \<and> fp_date e = dateLabel_of c (date b)))"
  by (auto simp: post_footprints_def save_and_award_def Let_def snd_award_response award_footprints
      split: sum.splits)

lemma alreadySubmitted_iff:
  "alreadySubmitted u d s \<longleftrightarrow> (u, d) \<in> set (map (\<lambda>f. (fp_user f, fp_date f)) (footprints s))"
  by (auto simp: alreadySubmitted_def list_ex_iff)

lemma post_footprints_one_per_day:
  "one_per_day s \<Longrightarrow> one_per_day (snd (post_footprints c b s))"
  using post_footprints_footprints [of c b s]
  by (auto simp: one_per_day_def alreadySubmitted_iff)

lemma handle_one_per_day:
  assumes "one_per_day s" "\<not> is_update r"
  shows "one_per_day (snd (handle adm r s))"
proof (cases r)
  case (PostFootprints c b)
  then show ?thesis using assms by (simp add: post_footprints_one_per_day)
next
  case (DeleteFootprints i)
  then show ?thesis using assms
    by (simp add: delete_footprints_def one_per_day_def distinct_map_filter
        split: route_id.splits)
next
  case (PostCreditsEarn c u sc d)
  then show ?thesis using assms award_footprints [of c u sc d s]
    by (auto simp: post_credits_earn_def one_per_day_def split: prod.splits sum.splits)
next
  case (GetWallet c u)
  then show ?thesis using assms
    by (simp add: get_wallet_state ensureWallet_state one_per_day_def)
qed (use assms in \<open>simp_all add: get_footprints_def get_transactions_def get_admin_credits_def Let_def\<close>)

lemma serve_one_per_day:
  "one_per_day s \<Longrightarrow> list_all (\<lambda>r. \<not> is_update r) rs \<Longrightarrow> one_per_day (serve adm rs s)"
  by (induction rs arbitrary: s) (auto simp: handle_one_per_day)

lemma post_duplicate:
  "\<not> falsy_string (user b) \<Longrightarrow> alreadySubmitted (the (user b)) (dateLabel_of c (date b)) s \<Longrightarrow>
   post_footprints c b s = (Failed 409 ''You already submitted a footprint for this date.'', s)"
  by (simp add: post_footprints_def Let_def)

lemma dateLabel_idem: "dateLabel_of c (Some (dateLabel_of c d)) = dateLabel_of c d"
  by (auto simp: dateLabel_of_def falsy_string_def split: option.splits)

lemma post_default_date:
  "falsy_string (date b) \<Longrightarrow>
   post_footprints c b s = post_footprints c (b\<lparr>date := Some (today c)\<rparr>) s"
  using dateLabel_idem [of c "date b"]
  by (simp add: post_footprints_def Let_def dateLabel_of_def)

text \<open>
  Claim C3. A submission that names a user, made when the store already holds a footprint
  of that user for the date of the submission, is answered with status 409 and leaves the
  store as it is. A submission without a date is the submission for the current day, and a
  submission that is saved appends one footprint, of its user and its date. So from a store
  with at most one footprint for a user and a date, any sequence of requests that are not
  updates, the submissions among them, leads to such a store again.
\<close>

theorem one_footprint_per_day:
  "(\<not> falsy_string (user b) \<and> alreadySubmitted (the (user b)) (dateLabel_of c (date b)) s \<longrightarrow>
      post_footprints c b s = (Failed 409 ''You already submitted a footprint for this date.'', s))
   \<and> (falsy_string (date b) \<longrightarrow>
        dateLabel_of c (date b) = today c
      \<and> post_footprints c b s = post_footprints c (b\<lparr>date := Some (today c)\<rparr>) s)
   \<and> (post_footprints c b s = (FootprintSaved x, s') \<longrightarrow>
        (\<exists>f. footprints s' = footprints s @ [f] \<and> fp_user f = the (user b)
            \<and> fp_date f = dateLabel_of c (date b)))
   \<and> (one_per_day s \<and> list_all (\<lambda>r. \<not> is_update r) rs \<longrightarrow> one_per_day (serve adm rs s))"
proof (intro conjI impI)
  assume "\<not> falsy_string (user b) \<and> alreadySubmitted (the (user b)) (dateLabel_of c (date b)) s"
  then show "post_footprints c b s
      = (Failed 409 ''You already submitted a footprint for this date.'', s)"
    by (simp add: post_duplicate)
next
  assume "falsy_string (date b)"
  then show "dateLabel_of c (date b) = today c"
    and "post_footprints c b s = post_footprints c (b\<lparr>date := Some (today c)\<rparr>) s"
    by (simp_all add: dateLabel_of_def post_default_date)
next
  assume a: "post_footprints c b s = (FootprintSaved x, s')"
  from post_footprints_saved [OF a] obtain b1 cs where
    "awardCreditsForFootprint c (Some (the (user b))) (total_score b1)
       (Some (dateLabel_of c (date b)))
       (s\<lparr>footprints := footprints s @
             [new_Footprint (next_id s) (the (user b)) (dateLabel_of c (date b)) b1],
          next_id := next_id s + 1\<rparr>) = (Inr cs, s')"
    by blast
  then have "footprints s' = footprints s @
      [new_Footprint (next_id s) (the (user b)) (dateLabel_of c (date b)) b1]"
    using award_footprints [of c "Some (the (user b))" "total_score b1"
        "Some (dateLabel_of c (date b))"
        "s\<lparr>footprints := footprints s @
              [new_Footprint (next_id s) (the (user b)) (dateLabel_of c (date b)) b1],
           next_id := next_id s + 1\<rparr>"]
    by simp
  then show "\<exists>f. footprints s' = footprints s @ [f] \<and> fp_user f = the (user b)
            \<and> fp_date f = dateLabel_of c (date b)"
    by simp
next
  assume "one_per_day s \<and> list_all (\<lambda>r. \<not> is_update r) rs"
  then show "one_per_day (serve adm rs s)" by (simp add: serve_one_per_day)
qed

theorem one_footprint_per_day_witness:
  "\<not> falsy_string (user body0)
   \<and> alreadySubmitted (the (user body0)) (dateLabel_of clock0 (date body0)) db1
   \<and> post_footprints clock0 body0 db1
       = (Failed 409 ''You already submitted a footprint for this date.'', db1)
   \<and> falsy_string (date (body0\<lparr>date := None\<rparr>))
   \<and> dateLabel_of clock0 (date (body0\<lparr>date := None\<rparr>)) = ''2024-01-05''
   \<and> post_footprints clock0 body0 empty_db = (FootprintSaved (Some summary1), db1)
   \<and> footprints db1 = footprints empty_db @ [footprint0]
   \<and> one_per_day empty_db \<and> list_all (\<lambda>r. \<not> is_update r) requests0
   \<and> one_per_day (serve [] requests0 empty_db)"
  using one_footprint_per_day [of body0 clock0 db1 "Some summary1" db1 "[]" "[]"]
    one_footprint_per_day [of "body0\<lparr>date := None\<rparr>" clock0 empty_db "Some summary1" db1
      requests0 "[]"]
    one_footprint_per_day [of body0 clock0 empty_db "Some summary1" db1 requests0 "[]"]
  by (simp add: post_body0)
    (simp add: body0_def db1_def footprint0_def empty_db_def clock0_def requests0_def
      falsy_string_def alreadySubmitted_def dateLabel_of_def one_per_day_def)

section \<open>Updating a footprint\<close>

lemma floor_half [simp]: "\<lfloor>(1 / 2 :: rat)\<rfloor> = 0"
  by (simp add: floor_eq_iff)

lemma finite_toFixed2: "isFinite_value v \<Longrightarrow> number_toFixed2 (ToNumber v) \<noteq> NaN"
proof (cases v)
  case (Num n)
  assume "isFinite_value v"
  with Num show ?thesis by (cases n) (simp_all add: isFinite_value_def)
qed (simp_all add: isFinite_value_def)

lemma rederive_inputs:
  "distance_daily (rederive req) = distance_daily req"
  "electricity_usage (rederive req) = electricity_usage req"
  "gas_usage (rederive req) = gas_usage req"
  by (simp_all add: rederive_def Let_def)

lemma rederive_derived:
  "travel_emissions (rederive req) =
     (if isFinite_value (travel (deriveEmissions req))
      then Num (number_toFixed2 (ToNumber (travel (deriveEmissions req)))) else travel_emissions req)"
  "food_emissions (rederive req) =
     (if isFinite_value (food (deriveEmissions req))
      then Num (number_toFixed2 (ToNumber (food (deriveEmissions req)))) else food_emissions req)"
  "energy_emissions (rederive req) =
     (if isFinite_value (energy (deriveEmissions req))
      then Num (number_toFixed2 (ToNumber (energy (deriveEmissions req)))) else energy_emissions req)"
  "total_score (rederive req) =
     (if isFinite_value (total (deriveEmissions req))
      then Num (number_toFixed2 (ToNumber (total (deriveEmissions req)))) else total_score req)"
  by (simp_all add: rederive_def Let_def)

lemma rederive_paths:
  "list_all castable (number_paths req) \<Longrightarrow> list_all castable (number_paths (rederive req))"
  by (simp add: number_paths_def rederive_inputs rederive_derived finite_toFixed2)

lemma find_replace_by_id:
  "find (\<lambda>f. fp_id f = i) fs = Some f \<Longrightarrow> fp_id g = i \<Longrightarrow>
   find (\<lambda>f. fp_id f = i) (replace_by_id i g fs) = Some g"
  by (induction fs) (auto split: if_splits)

lemma apply_updates_id [simp]: "fp_id (apply_updates b f) = fp_id f"
  by (simp add: apply_updates_def)

lemma find_id: "find (\<lambda>f. fp_id f = i) fs = Some f \<Longrightarrow> fp_id f = i"
  by (induction fs) (auto split: if_splits)

lemma put_found:
  assumes "list_all castable (number_paths req)" "footprint_by_id s i = Some f"
  shows "put_footprints (ObjectId i) req s =
           (FootprintUpdated (apply_updates (rederive req) f),
            s\<lparr>footprints := replace_by_id i (apply_updates (rederive req) f) (footprints s)\<rparr>)"
    and "footprint_by_id (snd (put_footprints (ObjectId i) req s)) i
           = Some (apply_updates (rederive req) f)"
  using assms rederive_paths [of req] find_id [of i "footprints s" f]
  by (simp_all add: put_footprints_def Let_def footprint_by_id_def find_replace_by_id)

lemma put_missing:
  assumes "list_all castable (number_paths req)" "footprint_by_id s i = None"
  shows "put_footprints (ObjectId i) req s = (Failed 404 ''Footprint not found'', s)"
  using assms rederive_paths [of req]
  by (simp add: put_footprints_def Let_def footprint_by_id_def)

lemma put_ill_formed:
  "put_footprints NotAnObjectId req s = (Failed 500 ''Error updating footprint'', s)"
  by (simp add: put_footprints_def Let_def)

lemma apply_updates_derived:
  "fp_travel_emissions (apply_updates b f) = set_number (travel_emissions b) (fp_travel_emissions f)"
  "fp_food_emissions (apply_updates b f) = set_number (food_emissions b) (fp_food_emissions f)"
  "fp_energy_emissions (apply_updates b f) = set_number (energy_emissions b) (fp_energy_emissions f)"
  "fp_total_score (apply_updates b f) = set_number (total_score b) (fp_total_score f)"
  by (simp_all add: apply_updates_def)

text \<open>
  Claim C5 as stated asks that an update recomputes the emissions from the existing record
  overlaid with the supplied fields. The route calls \<open>deriveEmissions\<close> on the request body
  alone. For the stored footprint of the example (a petrol car, 20 a day, vegan, score 6.31)
  and an update that gives only a daily distance of 30, the merged fields have the total
  8.020000000000001, and the update stores the total 0.
\<close>

theorem update_not_merged_counterexample:
  "total (deriveEmissions (spec_merged_fields footprint0 update0))
     = Num (Fin (4514858626438923 / 562949953421312))
   \<and> map fp_total_score (footprints (snd (put_footprints (ObjectId 0) update0 db1)))
       = [Some (Fin 0)]"
  by (simp add: derive_evaluation spec_merged_fields_def update0_def footprint0_def db1_def
      put_footprints_def rederive_def set_string_def stored_value_def isFinite_value_def
      round2_def number_paths_def apply_updates_def set_number_def)

text \<open>
  Claim C5, amended. An identifier that is no identifier of the store is answered with
  status 500 and changes nothing. For an identifier of the store and an update whose numeric
  values the store accepts: when no footprint has the identifier, the answer is status 404
  and the store stays as it is; when a footprint has it, the footprint is replaced by itself
  with the paths of the update set, which is what a later read by that identifier finds, and
  each of the four derived fields whose value derived from the request body alone is finite
  holds the double that \<open>Number(value.toFixed(2))\<close> gives for that value. The fields of the
  existing record do not enter the derivation.
\<close>

theorem update_recomputes_from_body:
  "put_footprints NotAnObjectId req s = (Failed 500 ''Error updating footprint'', s)
   \<and> (list_all castable (number_paths req) \<longrightarrow>
       (footprint_by_id s i = None \<longrightarrow>
          put_footprints (ObjectId i) req s = (Failed 404 ''Footprint not found'', s))
     \<and> (footprint_by_id s i = Some f \<longrightarrow>
          (\<exists>g. put_footprints (ObjectId i) req s
                  = (FootprintUpdated g, s\<lparr>footprints := replace_by_id i g (footprints s)\<rparr>)
             \<and> g = apply_updates (rederive req) f
             \<and> footprint_by_id (snd (put_footprints (ObjectId i) req s)) i = Some g
             \<and> (isFinite_value (travel (deriveEmissions req)) \<longrightarrow>
                  fp_travel_emissions g
                    = Some (number_toFixed2 (ToNumber (travel (deriveEmissions req)))))
             \<and> (isFinite_value (food (deriveEmissions req)) \<longrightarrow>
                  fp_food_emissions g
                    = Some (number_toFixed2 (ToNumber (food (deriveEmissions req)))))
             \<and> (isFinite_value (energy (deriveEmissions req)) \<longrightarrow>
                  fp_energy_emissions g
                    = Some (number_toFixed2 (ToNumber (energy (deriveEmissions req)))))
             \<and> (isFinite_value (total (deriveEmissions req)) \<longrightarrow>
                  fp_total_score g
                    = Some (number_toFixed2 (ToNumber (total (deriveEmissions req))))))))"
proof (intro impI conjI)
  show "put_footprints NotAnObjectId req s = (Failed 500 ''Error updating footprint'', s)"
    by (rule put_ill_formed)
next
  assume c: "list_all castable (number_paths req)" and "footprint_by_id s i = None"
  then show "put_footprints (ObjectId i) req s = (Failed 404 ''Footprint not found'', s)"
    by (rule put_missing)
next
  assume c: "list_all castable (number_paths req)" and f: "footprint_by_id s i = Some f"
  let ?g = "apply_updates (rederive req) f"
  have "put_footprints (ObjectId i) req s
          = (FootprintUpdated ?g, s\<lparr>footprints := replace_by_id i ?g (footprints s)\<rparr>)"
    and "footprint_by_id (snd (put_footprints (ObjectId i) req s)) i = Some ?g"
    using put_found [OF c f] by simp_all
  moreover have "isFinite_value (travel (deriveEmissions req)) \<longrightarrow>
      fp_travel_emissions ?g = Some (number_toFixed2 (ToNumber (travel (deriveEmissions req))))"
    by (simp add: apply_updates_derived rederive_derived set_number_def)
  moreover have "isFinite_value (food (deriveEmissions req)) \<longrightarrow>
      fp_food_emissions ?g = Some (number_toFixed2 (ToNumber (food (deriveEmissions req))))"
    by (simp add: apply_updates_derived rederive_derived set_number_def)
  moreover have "isFinite_value (energy (deriveEmissions req)) \<longrightarrow>
      fp_energy_emissions ?g = Some (number_toFixed2 (ToNumber (energy (deriveEmissions req))))"
    by (simp add: apply_updates_derived rederive_derived set_number_def)
  moreover have "isFinite_value (total (deriveEmissions req)) \<longrightarrow>
      fp_total_score ?g = Some (number_toFixed2 (ToNumber (total (deriveEmissions req))))"
    by (simp add: apply_updates_derived rederive_derived set_number_def)
  ultimately show "\<exists>g. put_footprints (ObjectId i) req s
                = (FootprintUpdated g, s\<lparr>footprints := replace_by_id i g (footprints s)\<rparr>)
           \<and> g = apply_updates (rederive req) f
           \<and> footprint_by_id (snd (put_footprints (ObjectId i) req s)) i = Some g
           \<and> (isFinite_value (travel (deriveEmissions req)) \<longrightarrow>
                fp_travel_emissions g
                  = Some (number_toFixed2 (ToNumber (travel (deriveEmissions req)))))
           \<and> (isFinite_value (food (deriveEmissions req)) \<longrightarrow>
                fp_food_emissions g
                  = Some (number_toFixed2 (ToNumber (food (deriveEmissions req)))))
           \<and> (isFinite_value (energy (deriveEmissions req)) \<longrightarrow>
                fp_energy_emissions g
                  = Some (number_toFixed2 (ToNumber (energy (deriveEmissions req)))))
           \<and> (isFinite_value (total (deriveEmissions req)) \<longrightarrow>
                fp_total_score g
                  = Some (number_toFixed2 (ToNumber (total (deriveEmissions req)))))"
    by blast
qed

text \<open>
  Two updates of the example footprint. The full update with a daily distance of 30 derives
  the total 8.020000000000001 and stores the double 8.02. The update that gives only an
  electricity usage of 30 derives the energy 0.475, a double below the decimal 0.475, and
  stores the double 0.47.
\<close>

lemma emissions_update1:
  "deriveEmissions update1 =
     \<lparr>travel = Num (Fin (2887933261051331 / 562949953421312)),
      food = Num (Fin (6507701461550367 / 2251799813685248)), energy = Num (Fin 0),
      total = Num (Fin (4514858626438923 / 562949953421312))\<rparr>"
  by (simp add: derive_evaluation update1_def body0_def)

lemma update1_evaluated:
  "list_all castable (number_paths update1)"
  "footprint_by_id db1 7 = None"
  "footprint_by_id db1 0 = Some footprint0"
  by (simp_all add: footprint_by_id_def db1_def footprint0_def number_paths_def update1_def
      body0_def)

lemma emissions_update_electricity:
  "energy (deriveEmissions update_electricity)
     = Num (Fin (4278419646001971 / 9007199254740992))"
  by (simp add: derive_evaluation update_electricity_def update0_def)

lemma update_electricity_evaluated:
  "list_all castable (number_paths update_electricity)"
  by (simp add: update_electricity_def update0_def number_paths_def)

lemma toFixed2_examples:
  "number_toFixed2 (Fin (4514858626438923 / 562949953421312))
     = Fin (2257429313219461 / 281474976710656)"
  "number_toFixed2 (Fin (4278419646001971 / 9007199254740992))
     = Fin (2116691824864133 / 4503599627370496)"
  by (simp_all add: round2_def rounded_def double_values)

theorem update_recomputes_from_body_witness:
  "put_footprints NotAnObjectId update1 db1 = (Failed 500 ''Error updating footprint'', db1)
   \<and> list_all castable (number_paths update1)
   \<and> footprint_by_id db1 7 = None
   \<and> put_footprints (ObjectId 7) update1 db1 = (Failed 404 ''Footprint not found'', db1)
   \<and> footprint_by_id db1 0 = Some footprint0
   \<and> isFinite_value (total (deriveEmissions update1))
   \<and> map fp_total_score (footprints (snd (put_footprints (ObjectId 0) update1 db1)))
       = [Some (Fin (2257429313219461 / 281474976710656))]
   \<and> list_all castable (number_paths update_electricity)
   \<and> isFinite_value (energy (deriveEmissions update_electricity))
   \<and> map fp_energy_emissions
        (footprints (snd (put_footprints (ObjectId 0) update_electricity db1)))
       = [Some (Fin (2116691824864133 / 4503599627370496))]"
proof -
  let ?g = "apply_updates (rederive update1) footprint0"
  let ?h = "apply_updates (rederive update_electricity) footprint0"
  have a: "put_footprints NotAnObjectId update1 db1 = (Failed 500 ''Error updating footprint'', db1)"
    "put_footprints (ObjectId 7) update1 db1 = (Failed 404 ''Footprint not found'', db1)"
    using update_recomputes_from_body [of update1 db1 7 footprint0]
    by (simp_all add: update1_evaluated)
  have t: "isFinite_value (total (deriveEmissions update1))"
    "number_toFixed2 (ToNumber (total (deriveEmissions update1)))
       = Fin (2257429313219461 / 281474976710656)"
    by (simp_all only: emissions_update1 emissions.simps ToNumber.simps toFixed2_examples)
       (simp add: isFinite_value_def)
  have g: "footprints (snd (put_footprints (ObjectId 0) update1 db1))
        = replace_by_id 0 ?g (footprints db1)"
    "fp_total_score ?g = Some (Fin (2257429313219461 / 281474976710656))"
    using update_recomputes_from_body [of update1 db1 0 footprint0]
    by (simp_all add: update1_evaluated t)
  have e: "isFinite_value (energy (deriveEmissions update_electricity))"
    "number_toFixed2 (ToNumber (energy (deriveEmissions update_electricity)))
       = Fin (2116691824864133 / 4503599627370496)"
    by (simp_all only: emissions_update_electricity ToNumber.simps toFixed2_examples)
       (simp add: isFinite_value_def)
  have h: "footprints (snd (put_footprints (ObjectId 0) update_electricity db1))
        = replace_by_id 0 ?h (footprints db1)"
    "fp_energy_emissions ?h = Some (Fin (2116691824864133 / 4503599627370496))"
    using update_recomputes_from_body [of update_electricity db1 0 footprint0]
    by (simp_all add: update1_evaluated update_electricity_evaluated e)
  have r: "replace_by_id 0 x (footprints db1) = [x]" for x
    by (simp add: db1_def footprint0_def)
  show ?thesis
    by (simp add: a g h r t e update1_evaluated update_electricity_evaluated)
qed

section \<open>The award of a submission and the manual award\<close>

lemma getPreviousScore_extra:
  "\<not> fp_date e < d \<Longrightarrow>
   getPreviousScore u d (s\<lparr>footprints := footprints s @ [e], next_id := k\<rparr>) = getPreviousScore u d s"
  by (simp add: getPreviousScore_def)

lemma award_extra_footprint:
  assumes "\<not> fp_date e < dateLabel_of c d"
  shows "awardCreditsForFootprint c u sc d (s\<lparr>footprints := footprints s @ [e], next_id := k\<rparr>) =
     (fst (awardCreditsForFootprint c u sc d s),
      (snd (awardCreditsForFootprint c u sc d s))\<lparr>footprints := footprints s @ [e], next_id := k\<rparr>)"
  using assms
  by (simp add: awardCreditsForFootprint_def Let_def getPreviousScore_extra
      split: prod.splits sum.splits)
     (auto simp: ensureWallet_def Let_def split: option.splits if_splits)

lemma award_date_cong:
  "dateLabel_of c d1 = dateLabel_of c d2 \<Longrightarrow>
   awardCreditsForFootprint c u sc d1 s = awardCreditsForFootprint c u sc d2 s"
  by (simp add: awardCreditsForFootprint_def Let_def)

lemma present_user: "\<not> falsy_string u \<Longrightarrow> Some (the u) = u"
  by (auto simp: falsy_string_def split: option.splits)

text \<open>
  Claim C8. When a footprint submission is saved and awards credits, the manual award for
  the same user, the same date and the score stored with the footprint, made on the store
  as it was before the submission, answers with the same credit summary (the same
  transactions, the same wallet) and leaves the same transactions and the same wallets.
\<close>

theorem submission_award_is_manual_award:
  "post_footprints c b s = (FootprintSaved (Some cs), s') \<longrightarrow>
     (\<exists>sc s''. typeof_number sc
        \<and> fp_total_score (last (footprints s')) = castNumber sc
        \<and> post_credits_earn c (user b) sc (date b) s = (CreditsAwarded cs, s'')
        \<and> transactions s'' = transactions s' \<and> wallets s'' = wallets s'
        \<and> transactions s' = transactions s @ s_transactions cs)"
proof
  assume a: "post_footprints c b s = (FootprintSaved (Some cs), s')"
  let ?u = "the (user b)" and ?d = "dateLabel_of c (date b)"
  from post_footprints_saved [OF a] obtain b1 where
    u: "\<not> falsy_string (user b)" and n: "typeof_number (total_score b1)"
    and w: "awardCreditsForFootprint c (Some ?u) (total_score b1) (Some ?d)
            (s\<lparr>footprints := footprints s @ [new_Footprint (next_id s) ?u ?d b1],
               next_id := next_id s + 1\<rparr>) = (Inr cs, s')"
    by auto
  let ?e = "new_Footprint (next_id s) ?u ?d b1"
  let ?m = "awardCreditsForFootprint c (user b) (total_score b1) (date b) s"
  have same: "awardCreditsForFootprint c (Some ?u) (total_score b1) (Some ?d) s = ?m"
    using u by (simp add: present_user award_date_cong [OF dateLabel_idem])
  have "\<not> fp_date ?e < dateLabel_of c (Some ?d)"
    by (simp add: dateLabel_idem)
  from award_extra_footprint [OF this, where u = "Some ?u" and sc = "total_score b1" and s = s
      and k = "next_id s + 1"] w same
  have r: "fst ?m = Inr cs"
    and s': "s' = (snd ?m)\<lparr>footprints := footprints s @ [?e], next_id := next_id s + 1\<rparr>"
    by simp_all
  have "post_credits_earn c (user b) (total_score b1) (date b) s = (CreditsAwarded cs, snd ?m)"
    using u n r by (cases ?m) (auto simp: post_credits_earn_def)
  moreover have "fp_total_score (last (footprints s')) = castNumber (total_score b1)"
    by (simp add: s' new_Footprint_def)
  moreover have "transactions (snd ?m) = transactions s'" "wallets (snd ?m) = wallets s'"
    by (simp_all add: s')
  moreover have "transactions s' = transactions s @ s_transactions cs"
  proof -
    have h: "ToNumber (total_score b1) \<noteq> NaN"
      using r award_fail [of "user b" "total_score b1" c "date b" s] by auto
    from award_success [OF u h, of c "date b" s] r
    have "transactions (snd ?m) = transactions s @ s_transactions cs" by auto
    then show ?thesis by (simp add: s')
  qed
  ultimately show "\<exists>sc s''. typeof_number sc
        \<and> fp_total_score (last (footprints s')) = castNumber sc
        \<and> post_credits_earn c (user b) sc (date b) s = (CreditsAwarded cs, s'')
        \<and> transactions s'' = transactions s' \<and> wallets s'' = wallets s'
        \<and> transactions s' = transactions s @ s_transactions cs"
    using n by blast
qed

lemma manual_award_evaluated:
  "fp_total_score (last (footprints db1))
     = castNumber (Num (Fin (7104428412176957 / 1125899906842624)))"
  "post_credits_earn clock0 (Some ''a@x.com'') (Num (Fin (7104428412176957 / 1125899906842624)))
       (Some ''2024-01-01'') empty_db
     = (CreditsAwarded summary1, db1\<lparr>footprints := [], next_id := 0\<rparr>)"
  by (simp_all add: post_credits_earn_def awardCreditsForFootprint_def Let_def falsy_string_def
      dateLabel_of_def getPreviousScore_def baseCreditsForScore_def bonusCreditsFor_def
      ensureWallet_def empty_db_def clock0_def summary1_def db1_def footprint0_def
      double_values)

theorem submission_award_is_manual_award_witness:
  "post_footprints clock0 body0 empty_db = (FootprintSaved (Some summary1), db1)
   \<and> fp_total_score (last (footprints db1)) = castNumber (Num (Fin (nearest_double 6.31)))
   \<and> post_credits_earn clock0 (Some ''a@x.com'') (Num (Fin (nearest_double 6.31)))
         (Some ''2024-01-01'') empty_db
       = (CreditsAwarded summary1, db1\<lparr>footprints := [], next_id := 0\<rparr>)"
  using submission_award_is_manual_award [of clock0 body0 empty_db summary1 db1]
  by (simp add: post_body0 manual_award_evaluated double_values)

section \<open>The admin summary\<close>

lemma set_foldl_Set_add: "set (foldl Set_add acc xs) = set acc \<union> set xs"
  by (induction xs arbitrary: acc) (auto simp: Set_add_def)

lemma distinct_foldl_Set_add: "distinct acc \<Longrightarrow> distinct (foldl Set_add acc xs)"
  by (induction xs arbitrary: acc) (auto simp: Set_add_def)

lemma set_new_Set [simp]: "set (new_Set xs) = set xs"
  by (simp add: new_Set_def set_foldl_Set_add)

lemma distinct_new_Set [simp]: "distinct (new_Set xs)"
  by (simp add: new_Set_def distinct_foldl_Set_add)

lemma foldl_averageMap:
  assumes "\<And>u. a_id (g u) = u"
  shows "foldl (\<lambda>map entry. map(a_id entry := Own entry)) m0 (map g us) k =
           (if k \<in> set us then Own (g k) else m0 k)"
  using assms by (induction us arbitrary: m0) auto

lemma aggregate_averages_eq:
  "aggregate_averages s = map (group_of s) (new_Set (map fp_user (footprints s)))"
  by (simp add: aggregate_averages_def group_of_def footprints_of_def Let_def)

lemma averageMap_get:
  "averageMap (aggregate_averages s) k =
     (if k \<in> set (map fp_user (footprints s)) then Own (group_of s k) else empty_object k)"
  unfolding averageMap_def aggregate_averages_eq
  by (subst foldl_averageMap) (simp_all add: group_of_def)

lemma find_map_key:
  assumes "\<And>u. key (g u) = u"
  shows "find (\<lambda>e. key e = k) (map g us) = (if k \<in> set us then Some (g k) else None)"
  using assms by (induction us) auto

lemma average_for_eq:
  "average_for s u = (if u \<in> set (map fp_user (footprints s)) then Some (group_of s u) else None)"
  unfolding average_for_def aggregate_averages_eq
  by (subst find_map_key) (simp_all add: group_of_def)

lemma admin_summary:
  assumes "isAdmin adm r"
  shows "\<exists>sm. get_admin_credits adm r s = (AdminSummary sm, s)
     \<and> employees sm = map (employee_of (wallets s) (averageMap (aggregate_averages s)))
                        (new_Set (map w_user (wallets s) @ map a_id (aggregate_averages s)))
     \<and> totalEmployees sm = length (employees sm)
     \<and> organizationAverage sm =
         (if aggregate_averages s \<noteq> []
          then num_div (foldl (\<lambda>sum item. num_add sum (score_or_zero (averageScore item)))
                          (Fin 0) (aggregate_averages s))
                 (Fin (of_nat (length (aggregate_averages s))))
          else Fin 0)"
  using assms by (simp add: get_admin_credits_def Let_def)

lemma a_id_aggregate: "map a_id (aggregate_averages s) = new_Set (map fp_user (footprints s))"
  by (simp add: aggregate_averages_eq group_of_def comp_def)

lemma employee_for_eq:
  assumes "employees sm = map (employee_of (wallets s) (averageMap (aggregate_averages s)))
                        (new_Set (map w_user (wallets s) @ map a_id (aggregate_averages s)))"
  shows "employee_for sm u =
     (if u \<in> set (map w_user (wallets s)) \<union> set (map fp_user (footprints s))
      then Some (employee_of (wallets s) (averageMap (aggregate_averages s)) u) else None)"
  unfolding employee_for_def assms
  by (subst find_map_key) (auto simp: employee_of_def Let_def a_id_aggregate)

lemma wallet_of_None_iff: "wallet_of s u = None \<longleftrightarrow> u \<notin> set (map w_user (wallets s))"
  by (auto simp: wallet_of_def find_None_iff)

lemma footprints_of_Nil_iff: "footprints_of s u = [] \<longleftrightarrow> u \<notin> set (map fp_user (footprints s))"
  by (auto simp: footprints_of_def filter_empty_conv)

lemma employee_of_fields:
  "e_user (employee_of ws m u) = u"
  "e_credits (employee_of ws m u) = (case find (\<lambda>w. w_user w = u) ws of None \<Rightarrow> 0 | Some w \<Rightarrow> credits w)"
  "e_averageScore (employee_of ws m u) = (case m u of Own a \<Rightarrow> number_or_null (averageScore a) | _ \<Rightarrow> None)"
  "e_entries (employee_of ws m u) = (case m u of Own a \<Rightarrow> Count (entries a) | ObjectConstructor \<Rightarrow> ObjectEntries | Nothing \<Rightarrow> Count 0)"
  by (simp_all add: employee_of_def Let_def)

lemma avg_some_nonempty: "avg_total_score fs = Some x \<Longrightarrow> fs \<noteq> []"
  by (auto simp: avg_total_score_def Let_def List.map_filter_simps)

text \<open>
  The employees of the summary are the users of the wallets and of the footprints, each once.
  A user with a wallet and no footprint, whose name is not \<open>constructor\<close>, has no average
  score and 0 entries; a user with footprints and no wallet has 0 credits.
\<close>

lemma admin_union:
  assumes "isAdmin adm r"
  shows "\<exists>sm. get_admin_credits adm r s = (AdminSummary sm, s)
     \<and> set (map e_user (employees sm)) = set (map w_user (wallets s)) \<union> set (map fp_user (footprints s))
     \<and> distinct (map e_user (employees sm))
     \<and> (\<forall>u. wallet_of s u \<noteq> None \<and> footprints_of s u = [] \<and> u \<noteq> ''constructor'' \<longrightarrow>
           (\<exists>e. employee_for sm u = Some e \<and> e_averageScore e = None \<and> e_entries e = Count 0))
     \<and> (\<forall>u. wallet_of s u = None \<and> footprints_of s u \<noteq> [] \<longrightarrow>
           (\<exists>e. employee_for sm u = Some e \<and> e_credits e = 0))"
proof -
  from admin_summary [OF assms, of s] obtain sm where
    g: "get_admin_credits adm r s = (AdminSummary sm, s)"
    and e: "employees sm = map (employee_of (wallets s) (averageMap (aggregate_averages s)))
                        (new_Set (map w_user (wallets s) @ map a_id (aggregate_averages s)))"
    by blast
  have m: "map e_user (employees sm) = new_Set (map w_user (wallets s) @ map a_id (aggregate_averages s))"
    by (simp add: e comp_def employee_of_fields)
  have 1: "set (map e_user (employees sm)) = set (map w_user (wallets s)) \<union> set (map fp_user (footprints s))"
    unfolding m by (simp add: a_id_aggregate)
  have 2: "distinct (map e_user (employees sm))"
    unfolding m by simp
  have 3: "\<exists>e. employee_for sm u = Some e \<and> e_averageScore e = None \<and> e_entries e = Count 0"
    if w: "wallet_of s u \<noteq> None" and f: "footprints_of s u = []" and c: "u \<noteq> ''constructor''" for u
  proof -
    have a: "u \<in> set (map w_user (wallets s))" using w by (simp add: wallet_of_None_iff)
    have b: "u \<notin> set (map fp_user (footprints s))" using f by (simp add: footprints_of_Nil_iff)
    have "employee_for sm u = Some (employee_of (wallets s) (averageMap (aggregate_averages s)) u)"
      using a by (simp add: employee_for_eq [OF e])
    moreover have "averageMap (aggregate_averages s) u = Nothing"
      using b c by (simp add: averageMap_get empty_object_def)
    ultimately show ?thesis by (simp add: employee_of_fields)
  qed
  have 4: "\<exists>e. employee_for sm u = Some e \<and> e_credits e = 0"
    if w: "wallet_of s u = None" and f: "footprints_of s u \<noteq> []" for u
  proof -
    have b: "u \<in> set (map fp_user (footprints s))" using f by (simp add: footprints_of_Nil_iff)
    have "employee_for sm u = Some (employee_of (wallets s) (averageMap (aggregate_averages s)) u)"
      using b by (simp add: employee_for_eq [OF e])
    moreover have "find (\<lambda>w. w_user w = u) (wallets s) = None"
      using w by (simp add: wallet_of_def)
    ultimately show ?thesis by (simp add: employee_of_fields)
  qed
  show ?thesis
  proof (intro exI [of _ sm] conjI allI impI)
    show "get_admin_credits adm r s = (AdminSummary sm, s)" by (rule g)
    show "set (map e_user (employees sm)) = set (map w_user (wallets s)) \<union> set (map fp_user (footprints s))"
      by (rule 1)
    show "distinct (map e_user (employees sm))" by (rule 2)
    show "\<exists>e. employee_for sm u = Some e \<and> e_averageScore e = None \<and> e_entries e = Count 0"
      if "wallet_of s u \<noteq> None \<and> footprints_of s u = [] \<and> u \<noteq> ''constructor''" for u
      using that 3 [of u] by blast
    show "\<exists>e. employee_for sm u = Some e \<and> e_credits e = 0"
      if "wallet_of s u = None \<and> footprints_of s u \<noteq> []" for u
      using that 4 [of u] by blast
  qed
qed

text \<open>
  Claim C9 asks that a user with a wallet and no footprint appears with 0 entries. A manual
  award of score 5 to the user named \<open>constructor\<close> leads from the empty store to
  \<open>db_constructor\<close>; in the summary of that store the entries of this user are what
  \<open>averageMap["constructor"].entries\<close> reads from the plain object: the built-in function
  \<open>Object.entries\<close>, not the number 0.
\<close>

theorem admin_entries_of_constructor:
  "post_credits_earn clock0 (Some ''constructor'') (Num (Fin 5)) None empty_db
     = (CreditsAwarded \<lparr>baseCredits = 5, bonusCredits = 0, totalAwarded = 5,
          s_wallet = \<lparr>w_user = ''constructor'', credits = 5, lastUpdated = 1000\<rparr>,
          s_transactions = transactions db_constructor\<rparr>, db_constructor)
   \<and> fst (get_admin_credits [''boss@x.com''] (Some ''boss@x.com'') db_constructor)
     = AdminSummary
         \<lparr>totalEmployees = 1, totalCredits = 5, organizationAverage = Fin 0,
          employees = [\<lparr>e_user = ''constructor'', e_credits = 5, e_lastUpdated = Some 1000,
                        e_averageScore = None, e_entries = ObjectEntries\<rparr>],
          ranking = [(\<lparr>e_user = ''constructor'', e_credits = 5, e_lastUpdated = Some 1000,
                        e_averageScore = None, e_entries = ObjectEntries\<rparr>, 1)]\<rparr>"
  by (simp add: post_credits_earn_def awardCreditsForFootprint_def Let_def falsy_string_def
      dateLabel_of_def getPreviousScore_def baseCreditsForScore_def bonusCreditsFor_def
      ensureWallet_def empty_db_def clock0_def db_constructor_def
      get_admin_credits_def isAdmin_def aggregate_averages_def new_Set_def Set_add_def
      averageMap_def empty_object_def employee_of_def)

text \<open>
  Claim C10. For an admin, a user whose footprints have the average score 0 appears in the
  summary with no average score, as a user with a wallet and no footprint does, while the
  entries count the user's footprints; the group of that user holds the average 0, and the
  term it adds to the sum behind the organization average is 0.
\<close>

theorem zero_average_reported_as_none:
  "(isAdmin adm r \<and> avg_total_score (footprints_of s u) = Some (Fin 0) \<longrightarrow>
     (\<exists>sm e a. get_admin_credits adm r s = (AdminSummary sm, s)
        \<and> employee_for sm u = Some e \<and> e_averageScore e = None
        \<and> e_entries e = Count (length (footprints_of s u))
        \<and> average_for s u = Some a \<and> averageScore a = Some (Fin 0)
        \<and> score_or_zero (averageScore a) = Fin 0
        \<and> organizationAverage sm =
            num_div (foldl (\<lambda>sum item. num_add sum (score_or_zero (averageScore item)))
                       (Fin 0) (aggregate_averages s))
              (Fin (of_nat (length (aggregate_averages s))))))
   \<and> (isAdmin adm r \<and> wallet_of s v \<noteq> None \<and> footprints_of s v = [] \<longrightarrow>
        (\<exists>sm e. get_admin_credits adm r s = (AdminSummary sm, s)
           \<and> employee_for sm v = Some e \<and> e_averageScore e = None))"
proof (intro conjI impI)
  assume h: "isAdmin adm r \<and> avg_total_score (footprints_of s u) = Some (Fin 0)"
  then have adm: "isAdmin adm r" and z: "avg_total_score (footprints_of s u) = Some (Fin 0)"
    by simp_all
  from admin_summary [OF adm, of s] obtain sm where
    g: "get_admin_credits adm r s = (AdminSummary sm, s)"
    and e: "employees sm = map (employee_of (wallets s) (averageMap (aggregate_averages s)))
                        (new_Set (map w_user (wallets s) @ map a_id (aggregate_averages s)))"
    and o: "organizationAverage sm =
         (if aggregate_averages s \<noteq> []
          then num_div (foldl (\<lambda>sum item. num_add sum (score_or_zero (averageScore item)))
                          (Fin 0) (aggregate_averages s))
                 (Fin (of_nat (length (aggregate_averages s))))
          else Fin 0)"
    by blast
  have u: "u \<in> set (map fp_user (footprints s))"
    using avg_some_nonempty [OF z] by (simp add: footprints_of_Nil_iff)
  then have ne: "aggregate_averages s \<noteq> []"
    by (auto simp: aggregate_averages_eq simp flip: set_empty)
  let ?e = "employee_of (wallets s) (averageMap (aggregate_averages s)) u"
  have "employee_for sm u = Some ?e"
    using u by (simp add: employee_for_eq [OF e])
  moreover have "e_averageScore ?e = None"
    using u z by (simp add: employee_of_fields averageMap_get group_of_def number_or_null_def)
  moreover have "e_entries ?e = Count (length (footprints_of s u))"
    using u by (simp add: employee_of_fields averageMap_get group_of_def)
  moreover have "average_for s u = Some (group_of s u)"
    using u by (simp add: average_for_eq)
  moreover have "averageScore (group_of s u) = Some (Fin 0)"
    using z by (simp add: group_of_def)
  moreover have "score_or_zero (averageScore (group_of s u)) = Fin 0"
    using z by (simp add: group_of_def score_or_zero_def number_or_null_def)
  ultimately show "\<exists>sm e a. get_admin_credits adm r s = (AdminSummary sm, s)
        \<and> employee_for sm u = Some e \<and> e_averageScore e = None
        \<and> e_entries e = Count (length (footprints_of s u))
        \<and> average_for s u = Some a \<and> averageScore a = Some (Fin 0)
        \<and> score_or_zero (averageScore a) = Fin 0
        \<and> organizationAverage sm =
            num_div (foldl (\<lambda>sum item. num_add sum (score_or_zero (averageScore item)))
                       (Fin 0) (aggregate_averages s))
              (Fin (of_nat (length (aggregate_averages s))))"
    using g o ne by auto
next
  assume h: "isAdmin adm r \<and> wallet_of s v \<noteq> None \<and> footprints_of s v = []"
  then have adm: "isAdmin adm r" by simp
  from admin_summary [OF adm, of s] obtain sm where
    g: "get_admin_credits adm r s = (AdminSummary sm, s)"
    and e: "employees sm = map (employee_of (wallets s) (averageMap (aggregate_averages s)))
                        (new_Set (map w_user (wallets s) @ map a_id (aggregate_averages s)))"
    by blast
  let ?e = "employee_of (wallets s) (averageMap (aggregate_averages s)) v"
  have "employee_for sm v = Some ?e"
    using h by (simp add: employee_for_eq [OF e] wallet_of_None_iff)
  moreover have "e_averageScore ?e = None"
    using h by (simp add: employee_of_fields averageMap_get footprints_of_Nil_iff empty_object_def)
  ultimately show "\<exists>sm e. get_admin_credits adm r s = (AdminSummary sm, s)
           \<and> employee_for sm v = Some e \<and> e_averageScore e = None"
    using g by blast
qed

lemma post_zero: "snd (post_footprints clock0 body_zero empty_db) = db_zero"
  by (simp add: post_footprints_def clock0_def body_zero_def empty_db_def db_zero_def
      falsy_string_def alreadySubmitted_def backfill_emissions_def save_and_award_def
      dateLabel_of_def derive_evaluation backfill_def round2_def number_paths_def
      new_Footprint_def awardCreditsForFootprint_def baseCreditsForScore_def
      getPreviousScore_def bonusCreditsFor_def ensureWallet_def)

theorem zero_average_reported_as_none_witness:
  "isAdmin [''boss@x.com''] (Some ''boss@x.com'')
   \<and> avg_total_score (footprints_of db_zero ''z@x.com'') = Some (Fin 0)
   \<and> fst (get_admin_credits [''boss@x.com''] (Some ''boss@x.com'') db_zero)
     = AdminSummary
         \<lparr>totalEmployees = 1, totalCredits = 5, organizationAverage = Fin 0,
          employees = [\<lparr>e_user = ''z@x.com'', e_credits = 5, e_lastUpdated = Some 1000,
                        e_averageScore = None, e_entries = Count 1\<rparr>],
          ranking = [(\<lparr>e_user = ''z@x.com'', e_credits = 5, e_lastUpdated = Some 1000,
                        e_averageScore = None, e_entries = Count 1\<rparr>, 1)]\<rparr>
   \<and> wallet_of db_constructor ''constructor'' \<noteq> None
   \<and> footprints_of db_constructor ''constructor'' = []"
  using zero_average_reported_as_none [of "[''boss@x.com'']" "Some ''boss@x.com''" db_zero
      "''z@x.com''" "''constructor''"]
    zero_average_reported_as_none [of "[''boss@x.com'']" "Some ''boss@x.com''" db_constructor
      "''z@x.com''" "''constructor''"]
  by (simp add: isAdmin_def falsy_string_def footprints_of_def db_zero_def db_constructor_def
      avg_total_score_def List.map_filter_simps wallet_of_def
      get_admin_credits_def aggregate_averages_def new_Set_def Set_add_def
      averageMap_def empty_object_def employee_of_def number_or_null_def score_or_zero_def)

end
